theory Spec2Isabelle
  imports Main
begin

section \<open>Python values used by the digest script\<close>

text \<open>
  A Python \<open>str\<close> is modelled as a \<open>string\<close> holding its UTF-8 bytes: concatenation,
  equality and the code-point order of \<open>str\<close> are concatenation, equality and the
  byte-wise lexicographic order of the encodings. Literals of the source outside ASCII are
  written byte by byte.
\<close>

text \<open>
  A Python \<open>str\<close> is a sequence of code points; \<open>strip\<close> and \<open>lower\<close> work on the code
  points, which are integers here. \<open>utf8_decode\<close> reads the code points of a string of the model and \<open>utf8_encode\<close>
  writes them back. A byte that is not part of a well-formed sequence (no \<open>str\<close> encodes to
  it) is carried as the value \<open>0x110000\<close> plus the byte, beyond the code points, and written
  back as that byte.
\<close>

definition is_cont :: "char \<Rightarrow> bool" where
  "is_cont b = (0x80 \<le> (of_char b :: int) \<and> (of_char b :: int) < 0xC0)"

definition cont_bits :: "char \<Rightarrow> int" where
  "cont_bits b = of_char b - 0x80"

fun utf8_decode :: "string \<Rightarrow> int list" where
  "utf8_decode [] = []"
| "utf8_decode (a # bs) =
     (let x = (of_char a :: int)
      in if x < 0x80 then x # utf8_decode bs
         else if 0xC0 \<le> x \<and> x < 0xE0 then
           (case bs of
              b # bs1 \<Rightarrow>
                if is_cont b then ((x - 0xC0) * 64 + cont_bits b) # utf8_decode bs1
                else (0x110000 + x) # utf8_decode bs
            | [] \<Rightarrow> [0x110000 + x])
         else if 0xE0 \<le> x \<and> x < 0xF0 then
           (case bs of
              b # c # bs2 \<Rightarrow>
                if is_cont b \<and> is_cont c
                then ((x - 0xE0) * 4096 + cont_bits b * 64 + cont_bits c) # utf8_decode bs2
                else (0x110000 + x) # utf8_decode bs
            | _ \<Rightarrow> (0x110000 + x) # utf8_decode bs)
         else if 0xF0 \<le> x \<and> x < 0xF8 then
           (case bs of
              b # c # d # bs3 \<Rightarrow>
                if is_cont b \<and> is_cont c \<and> is_cont d
                then ((x - 0xF0) * 262144 + cont_bits b * 4096 + cont_bits c * 64 + cont_bits d)
                       # utf8_decode bs3
                else (0x110000 + x) # utf8_decode bs
            | _ \<Rightarrow> (0x110000 + x) # utf8_decode bs)
         else (0x110000 + x) # utf8_decode bs)"

definition encode_cp :: "int \<Rightarrow> string" where
  "encode_cp c =
     (if c < 0x80 then [char_of c]
      else if c < 0x800 then [char_of (0xC0 + c div 64), char_of (0x80 + c mod 64)]
      else if c < 0x10000 then
        [char_of (0xE0 + c div 4096), char_of (0x80 + c div 64 mod 64), char_of (0x80 + c mod 64)]
      else if c < 0x110000 then
        [char_of (0xF0 + c div 262144), char_of (0x80 + c div 4096 mod 64),
         char_of (0x80 + c div 64 mod 64), char_of (0x80 + c mod 64)]
      else [char_of (c - 0x110000)])"

definition utf8_encode :: "int list \<Rightarrow> string" where
  "utf8_encode cs = concat (map encode_cp cs)"

text \<open>
  \<open>str.strip()\<close> removes the leading and the trailing whitespace characters: the code
  points for which \<open>str.isspace\<close> holds.
\<close>

definition py_isspace :: "int \<Rightarrow> bool" where
  "py_isspace c =
     (c \<in> set [0x09, 0x0A, 0x0B, 0x0C, 0x0D, 0x1C, 0x1D, 0x1E, 0x1F, 0x20, 0x85, 0xA0, 0x1680,
               0x2000, 0x2001, 0x2002, 0x2003, 0x2004, 0x2005, 0x2006, 0x2007, 0x2008, 0x2009,
               0x200A, 0x2028, 0x2029, 0x202F, 0x205F, 0x3000])"

definition strip_points :: "int list \<Rightarrow> int list" where
  "strip_points cs = rev (dropWhile py_isspace (rev (dropWhile py_isspace cs)))"

definition py_strip :: "string \<Rightarrow> string" where
  "py_strip s = utf8_encode (strip_points (utf8_decode s))"

text \<open>
  \<open>str.lower()\<close> replaces each code point by its lowercase mapping of the Unicode
  character database (version 14.0.0, the one of CPython 3.11). Below \<open>U+00C0\<close> only
  \<open>A\<close> to \<open>Z\<close> have one. An entry \<open>(lo, hi, step, lo')\<close> of \<open>lower_runs\<close> maps the code
  points \<open>lo\<close>, \<open>lo + step\<close>, ... up to \<open>hi\<close> to \<open>lo'\<close>, \<open>lo' + step\<close>, ...;
  \<open>U+0130\<close> maps to the two code points \<open>U+0069 U+0307\<close>.
\<close>

definition lower_runs :: "(int \<times> int \<times> int \<times> int) list" where
  "lower_runs =
    [
     (0xC0, 0xD6, 1, 0xE0), (0xD8, 0xDE, 1, 0xF8), (0x100, 0x12E, 2, 0x101),
     (0x132, 0x136, 2, 0x133), (0x139, 0x147, 2, 0x13A), (0x14A, 0x176, 2, 0x14B),
     (0x178, 0x178, 1, 0xFF), (0x179, 0x17D, 2, 0x17A), (0x181, 0x181, 1, 0x253),
     (0x182, 0x184, 2, 0x183), (0x186, 0x186, 1, 0x254), (0x187, 0x187, 1, 0x188),
     (0x189, 0x18A, 1, 0x256), (0x18B, 0x18B, 1, 0x18C), (0x18E, 0x18E, 1, 0x1DD),
     (0x18F, 0x18F, 1, 0x259), (0x190, 0x190, 1, 0x25B), (0x191, 0x191, 1, 0x192),
     (0x193, 0x193, 1, 0x260), (0x194, 0x194, 1, 0x263), (0x196, 0x196, 1, 0x269),
     (0x197, 0x197, 1, 0x268), (0x198, 0x198, 1, 0x199), (0x19C, 0x19C, 1, 0x26F),
     (0x19D, 0x19D, 1, 0x272), (0x19F, 0x19F, 1, 0x275), (0x1A0, 0x1A4, 2, 0x1A1),
     (0x1A6, 0x1A6, 1, 0x280), (0x1A7, 0x1A7, 1, 0x1A8), (0x1A9, 0x1A9, 1, 0x283),
     (0x1AC, 0x1AC, 1, 0x1AD), (0x1AE, 0x1AE, 1, 0x288), (0x1AF, 0x1AF, 1, 0x1B0),
     (0x1B1, 0x1B2, 1, 0x28A), (0x1B3, 0x1B5, 2, 0x1B4), (0x1B7, 0x1B7, 1, 0x292),
     (0x1B8, 0x1B8, 1, 0x1B9), (0x1BC, 0x1BC, 1, 0x1BD), (0x1C4, 0x1C4, 1, 0x1C6),
     (0x1C5, 0x1C5, 1, 0x1C6), (0x1C7, 0x1C7, 1, 0x1C9), (0x1C8, 0x1C8, 1, 0x1C9),
     (0x1CA, 0x1CA, 1, 0x1CC), (0x1CB, 0x1DB, 2, 0x1CC), (0x1DE, 0x1EE, 2, 0x1DF),
     (0x1F1, 0x1F1, 1, 0x1F3), (0x1F2, 0x1F4, 2, 0x1F3), (0x1F6, 0x1F6, 1, 0x195),
     (0x1F7, 0x1F7, 1, 0x1BF), (0x1F8, 0x21E, 2, 0x1F9), (0x220, 0x220, 1, 0x19E),
     (0x222, 0x232, 2, 0x223), (0x23A, 0x23A, 1, 0x2C65), (0x23B, 0x23B, 1, 0x23C),
     (0x23D, 0x23D, 1, 0x19A), (0x23E, 0x23E, 1, 0x2C66), (0x241, 0x241, 1, 0x242),
     (0x243, 0x243, 1, 0x180), (0x244, 0x244, 1, 0x289), (0x245, 0x245, 1, 0x28C),
     (0x246, 0x24E, 2, 0x247), (0x370, 0x372, 2, 0x371), (0x376, 0x376, 1, 0x377),
     (0x37F, 0x37F, 1, 0x3F3), (0x386, 0x386, 1, 0x3AC), (0x388, 0x38A, 1, 0x3AD),
     (0x38C, 0x38C, 1, 0x3CC), (0x38E, 0x38F, 1, 0x3CD), (0x391, 0x3A1, 1, 0x3B1),
     (0x3A3, 0x3AB, 1, 0x3C3), (0x3CF, 0x3CF, 1, 0x3D7), (0x3D8, 0x3EE, 2, 0x3D9),
     (0x3F4, 0x3F4, 1, 0x3B8), (0x3F7, 0x3F7, 1, 0x3F8), (0x3F9, 0x3F9, 1, 0x3F2),
     (0x3FA, 0x3FA, 1, 0x3FB), (0x3FD, 0x3FF, 1, 0x37B), (0x400, 0x40F, 1, 0x450),
     (0x410, 0x42F, 1, 0x430), (0x460, 0x480, 2, 0x461), (0x48A, 0x4BE, 2, 0x48B),
     (0x4C0, 0x4C0, 1, 0x4CF), (0x4C1, 0x4CD, 2, 0x4C2), (0x4D0, 0x52E, 2, 0x4D1),
     (0x531, 0x556, 1, 0x561), (0x10A0, 0x10C5, 1, 0x2D00), (0x10C7, 0x10C7, 1, 0x2D27),
     (0x10CD, 0x10CD, 1, 0x2D2D), (0x13A0, 0x13EF, 1, 0xAB70), (0x13F0, 0x13F5, 1, 0x13F8),
     (0x1C90, 0x1CBA, 1, 0x10D0), (0x1CBD, 0x1CBF, 1, 0x10FD), (0x1E00, 0x1E94, 2, 0x1E01),
     (0x1E9E, 0x1E9E, 1, 0xDF), (0x1EA0, 0x1EFE, 2, 0x1EA1), (0x1F08, 0x1F0F, 1, 0x1F00),
     (0x1F18, 0x1F1D, 1, 0x1F10), (0x1F28, 0x1F2F, 1, 0x1F20), (0x1F38, 0x1F3F, 1, 0x1F30),
     (0x1F48, 0x1F4D, 1, 0x1F40), (0x1F59, 0x1F5F, 2, 0x1F51), (0x1F68, 0x1F6F, 1, 0x1F60),
     (0x1F88, 0x1F8F, 1, 0x1F80), (0x1F98, 0x1F9F, 1, 0x1F90), (0x1FA8, 0x1FAF, 1, 0x1FA0),
     (0x1FB8, 0x1FB9, 1, 0x1FB0), (0x1FBA, 0x1FBB, 1, 0x1F70), (0x1FBC, 0x1FBC, 1, 0x1FB3),
     (0x1FC8, 0x1FCB, 1, 0x1F72), (0x1FCC, 0x1FCC, 1, 0x1FC3), (0x1FD8, 0x1FD9, 1, 0x1FD0),
     (0x1FDA, 0x1FDB, 1, 0x1F76), (0x1FE8, 0x1FE9, 1, 0x1FE0), (0x1FEA, 0x1FEB, 1, 0x1F7A),
     (0x1FEC, 0x1FEC, 1, 0x1FE5), (0x1FF8, 0x1FF9, 1, 0x1F78), (0x1FFA, 0x1FFB, 1, 0x1F7C),
     (0x1FFC, 0x1FFC, 1, 0x1FF3), (0x2126, 0x2126, 1, 0x3C9), (0x212A, 0x212A, 1, 0x6B),
     (0x212B, 0x212B, 1, 0xE5), (0x2132, 0x2132, 1, 0x214E), (0x2160, 0x216F, 1, 0x2170),
     (0x2183, 0x2183, 1, 0x2184), (0x24B6, 0x24CF, 1, 0x24D0), (0x2C00, 0x2C2F, 1, 0x2C30),
     (0x2C60, 0x2C60, 1, 0x2C61), (0x2C62, 0x2C62, 1, 0x26B), (0x2C63, 0x2C63, 1, 0x1D7D),
     (0x2C64, 0x2C64, 1, 0x27D), (0x2C67, 0x2C6B, 2, 0x2C68), (0x2C6D, 0x2C6D, 1, 0x251),
     (0x2C6E, 0x2C6E, 1, 0x271), (0x2C6F, 0x2C6F, 1, 0x250), (0x2C70, 0x2C70, 1, 0x252),
     (0x2C72, 0x2C72, 1, 0x2C73), (0x2C75, 0x2C75, 1, 0x2C76), (0x2C7E, 0x2C7F, 1, 0x23F),
     (0x2C80, 0x2CE2, 2, 0x2C81), (0x2CEB, 0x2CED, 2, 0x2CEC), (0x2CF2, 0x2CF2, 1, 0x2CF3),
     (0xA640, 0xA66C, 2, 0xA641), (0xA680, 0xA69A, 2, 0xA681), (0xA722, 0xA72E, 2, 0xA723),
     (0xA732, 0xA76E, 2, 0xA733), (0xA779, 0xA77B, 2, 0xA77A), (0xA77D, 0xA77D, 1, 0x1D79),
     (0xA77E, 0xA786, 2, 0xA77F), (0xA78B, 0xA78B, 1, 0xA78C), (0xA78D, 0xA78D, 1, 0x265),
     (0xA790, 0xA792, 2, 0xA791), (0xA796, 0xA7A8, 2, 0xA797), (0xA7AA, 0xA7AA, 1, 0x266),
     (0xA7AB, 0xA7AB, 1, 0x25C), (0xA7AC, 0xA7AC, 1, 0x261), (0xA7AD, 0xA7AD, 1, 0x26C),
     (0xA7AE, 0xA7AE, 1, 0x26A), (0xA7B0, 0xA7B0, 1, 0x29E), (0xA7B1, 0xA7B1, 1, 0x287),
     (0xA7B2, 0xA7B2, 1, 0x29D), (0xA7B3, 0xA7B3, 1, 0xAB53), (0xA7B4, 0xA7C2, 2, 0xA7B5),
     (0xA7C4, 0xA7C4, 1, 0xA794), (0xA7C5, 0xA7C5, 1, 0x282), (0xA7C6, 0xA7C6, 1, 0x1D8E),
     (0xA7C7, 0xA7C9, 2, 0xA7C8), (0xA7D0, 0xA7D0, 1, 0xA7D1), (0xA7D6, 0xA7D8, 2, 0xA7D7),
     (0xA7F5, 0xA7F5, 1, 0xA7F6), (0xFF21, 0xFF3A, 1, 0xFF41), (0x10400, 0x10427, 1, 0x10428),
     (0x104B0, 0x104D3, 1, 0x104D8), (0x10570, 0x10594, 2, 0x10597),
     (0x10571, 0x1057A, 1, 0x10598), (0x1057D, 0x1058A, 1, 0x105A4),
     (0x1058D, 0x10592, 1, 0x105B4), (0x10595, 0x10595, 1, 0x105BC),
     (0x10C80, 0x10CB2, 1, 0x10CC0), (0x118A0, 0x118BF, 1, 0x118C0),
     (0x16E40, 0x16E5F, 1, 0x16E60), (0x1E900, 0x1E921, 1, 0x1E922)]"

definition lower_cp :: "int \<Rightarrow> int list" where
  "lower_cp c =
     (if c < 0xC0 then (if 0x41 \<le> c \<and> c \<le> 0x5A then [c + 0x20] else [c])
      else if c = 0x130 then [0x69, 0x307]
      else case find (\<lambda>(lo, hi, step, lo'). lo \<le> c \<and> c \<le> hi \<and> (c - lo) mod step = 0)
                  lower_runs of
             Some (lo, hi, step, lo') \<Rightarrow> [lo' + (c - lo)]
           | None \<Rightarrow> [c])"

text \<open>
  The capital sigma \<open>U+03A3\<close> is the one code point whose lowercase depends on its
  neighbours: it becomes the final sigma \<open>U+03C2\<close> when, skipping case-ignorable code
  points, a cased code point stands before it and none stands after it, and \<open>U+03C3\<close>
  otherwise. The two properties are those of the character database; below \<open>U+0080\<close> the
  letters are cased and \<open>' . : ^ `\<close> are case-ignorable.
\<close>

definition cased_ranges :: "(int \<times> int) list" where
  "cased_ranges =
    [
     (0xAA, 0xAA), (0xB5, 0xB5), (0xBA, 0xBA), (0xC0, 0xD6), (0xD8, 0xF6), (0xF8, 0x1BA),
     (0x1BC, 0x1BF), (0x1C4, 0x293), (0x295, 0x2B8), (0x2C0, 0x2C1), (0x2E0, 0x2E4),
     (0x345, 0x345), (0x370, 0x373), (0x376, 0x377), (0x37A, 0x37D), (0x37F, 0x37F),
     (0x386, 0x386), (0x388, 0x38A), (0x38C, 0x38C), (0x38E, 0x3A1), (0x3A3, 0x3F5),
     (0x3F7, 0x481), (0x48A, 0x52F), (0x531, 0x556), (0x560, 0x588), (0x10A0, 0x10C5),
     (0x10C7, 0x10C7), (0x10CD, 0x10CD), (0x10D0, 0x10FA), (0x10FD, 0x10FF), (0x13A0, 0x13F5),
     (0x13F8, 0x13FD), (0x1C80, 0x1C88), (0x1C90, 0x1CBA), (0x1CBD, 0x1CBF), (0x1D00, 0x1DBF),
     (0x1E00, 0x1F15), (0x1F18, 0x1F1D), (0x1F20, 0x1F45), (0x1F48, 0x1F4D), (0x1F50, 0x1F57),
     (0x1F59, 0x1F59), (0x1F5B, 0x1F5B), (0x1F5D, 0x1F5D), (0x1F5F, 0x1F7D), (0x1F80, 0x1FB4),
     (0x1FB6, 0x1FBC), (0x1FBE, 0x1FBE), (0x1FC2, 0x1FC4), (0x1FC6, 0x1FCC), (0x1FD0, 0x1FD3),
     (0x1FD6, 0x1FDB), (0x1FE0, 0x1FEC), (0x1FF2, 0x1FF4), (0x1FF6, 0x1FFC), (0x2071, 0x2071),
     (0x207F, 0x207F), (0x2090, 0x209C), (0x2102, 0x2102), (0x2107, 0x2107), (0x210A, 0x2113),
     (0x2115, 0x2115), (0x2119, 0x211D), (0x2124, 0x2124), (0x2126, 0x2126), (0x2128, 0x2128),
     (0x212A, 0x212D), (0x212F, 0x2134), (0x2139, 0x2139), (0x213C, 0x213F), (0x2145, 0x2149),
     (0x214E, 0x214E), (0x2160, 0x217F), (0x2183, 0x2184), (0x24B6, 0x24E9), (0x2C00, 0x2CE4),
     (0x2CEB, 0x2CEE), (0x2CF2, 0x2CF3), (0x2D00, 0x2D25), (0x2D27, 0x2D27), (0x2D2D, 0x2D2D),
     (0xA640, 0xA66D), (0xA680, 0xA69D), (0xA722, 0xA787), (0xA78B, 0xA78E), (0xA790, 0xA7CA),
     (0xA7D0, 0xA7D1), (0xA7D3, 0xA7D3), (0xA7D5, 0xA7D9), (0xA7F5, 0xA7F6), (0xA7F8, 0xA7FA),
     (0xAB30, 0xAB5A), (0xAB5C, 0xAB68), (0xAB70, 0xABBF), (0xFB00, 0xFB06), (0xFB13, 0xFB17),
     (0xFF21, 0xFF3A), (0xFF41, 0xFF5A), (0x10400, 0x1044F), (0x104B0, 0x104D3),
     (0x104D8, 0x104FB), (0x10570, 0x1057A), (0x1057C, 0x1058A), (0x1058C, 0x10592),
     (0x10594, 0x10595), (0x10597, 0x105A1), (0x105A3, 0x105B1), (0x105B3, 0x105B9),
     (0x105BB, 0x105BC), (0x10780, 0x10780), (0x10783, 0x10785), (0x10787, 0x107B0),
     (0x107B2, 0x107BA), (0x10C80, 0x10CB2), (0x10CC0, 0x10CF2), (0x118A0, 0x118DF),
     (0x16E40, 0x16E7F), (0x1D400, 0x1D454), (0x1D456, 0x1D49C), (0x1D49E, 0x1D49F),
     (0x1D4A2, 0x1D4A2), (0x1D4A5, 0x1D4A6), (0x1D4A9, 0x1D4AC), (0x1D4AE, 0x1D4B9),
     (0x1D4BB, 0x1D4BB), (0x1D4BD, 0x1D4C3), (0x1D4C5, 0x1D505), (0x1D507, 0x1D50A),
     (0x1D50D, 0x1D514), (0x1D516, 0x1D51C), (0x1D51E, 0x1D539), (0x1D53B, 0x1D53E),
     (0x1D540, 0x1D544), (0x1D546, 0x1D546), (0x1D54A, 0x1D550), (0x1D552, 0x1D6A5),
     (0x1D6A8, 0x1D6C0), (0x1D6C2, 0x1D6DA), (0x1D6DC, 0x1D6FA), (0x1D6FC, 0x1D714),
     (0x1D716, 0x1D734), (0x1D736, 0x1D74E), (0x1D750, 0x1D76E), (0x1D770, 0x1D788),
     (0x1D78A, 0x1D7A8), (0x1D7AA, 0x1D7C2), (0x1D7C4, 0x1D7CB), (0x1DF00, 0x1DF09),
     (0x1DF0B, 0x1DF1E), (0x1E900, 0x1E943), (0x1F130, 0x1F149), (0x1F150, 0x1F169),
     (0x1F170, 0x1F189)]"

definition case_ignorable_ranges :: "(int \<times> int) list" where
  "case_ignorable_ranges =
    [
     (0xA8, 0xA8), (0xAD, 0xAD), (0xAF, 0xAF), (0xB4, 0xB4), (0xB7, 0xB8), (0x2B0, 0x36F),
     (0x374, 0x375), (0x37A, 0x37A), (0x384, 0x385), (0x387, 0x387), (0x483, 0x489),
     (0x559, 0x559), (0x55F, 0x55F), (0x591, 0x5BD), (0x5BF, 0x5BF), (0x5C1, 0x5C2),
     (0x5C4, 0x5C5), (0x5C7, 0x5C7), (0x5F4, 0x5F4), (0x600, 0x605), (0x610, 0x61A),
     (0x61C, 0x61C), (0x640, 0x640), (0x64B, 0x65F), (0x670, 0x670), (0x6D6, 0x6DD),
     (0x6DF, 0x6E8), (0x6EA, 0x6ED), (0x70F, 0x70F), (0x711, 0x711), (0x730, 0x74A),
     (0x7A6, 0x7B0), (0x7EB, 0x7F5), (0x7FA, 0x7FA), (0x7FD, 0x7FD), (0x816, 0x82D),
     (0x859, 0x85B), (0x888, 0x888), (0x890, 0x891), (0x898, 0x89F), (0x8C9, 0x902),
     (0x93A, 0x93A), (0x93C, 0x93C), (0x941, 0x948), (0x94D, 0x94D), (0x951, 0x957),
     (0x962, 0x963), (0x971, 0x971), (0x981, 0x981), (0x9BC, 0x9BC), (0x9C1, 0x9C4),
     (0x9CD, 0x9CD), (0x9E2, 0x9E3), (0x9FE, 0x9FE), (0xA01, 0xA02), (0xA3C, 0xA3C),
     (0xA41, 0xA42), (0xA47, 0xA48), (0xA4B, 0xA4D), (0xA51, 0xA51), (0xA70, 0xA71),
     (0xA75, 0xA75), (0xA81, 0xA82), (0xABC, 0xABC), (0xAC1, 0xAC5), (0xAC7, 0xAC8),
     (0xACD, 0xACD), (0xAE2, 0xAE3), (0xAFA, 0xAFF), (0xB01, 0xB01), (0xB3C, 0xB3C),
     (0xB3F, 0xB3F), (0xB41, 0xB44), (0xB4D, 0xB4D), (0xB55, 0xB56), (0xB62, 0xB63),
     (0xB82, 0xB82), (0xBC0, 0xBC0), (0xBCD, 0xBCD), (0xC00, 0xC00), (0xC04, 0xC04),
     (0xC3C, 0xC3C), (0xC3E, 0xC40), (0xC46, 0xC48), (0xC4A, 0xC4D), (0xC55, 0xC56),
     (0xC62, 0xC63), (0xC81, 0xC81), (0xCBC, 0xCBC), (0xCBF, 0xCBF), (0xCC6, 0xCC6),
     (0xCCC, 0xCCD), (0xCE2, 0xCE3), (0xD00, 0xD01), (0xD3B, 0xD3C), (0xD41, 0xD44),
     (0xD4D, 0xD4D), (0xD62, 0xD63), (0xD81, 0xD81), (0xDCA, 0xDCA), (0xDD2, 0xDD4),
     (0xDD6, 0xDD6), (0xE31, 0xE31), (0xE34, 0xE3A), (0xE46, 0xE4E), (0xEB1, 0xEB1),
     (0xEB4, 0xEBC), (0xEC6, 0xEC6), (0xEC8, 0xECD), (0xF18, 0xF19), (0xF35, 0xF35),
     (0xF37, 0xF37), (0xF39, 0xF39), (0xF71, 0xF7E), (0xF80, 0xF84), (0xF86, 0xF87),
     (0xF8D, 0xF97), (0xF99, 0xFBC), (0xFC6, 0xFC6), (0x102D, 0x1030), (0x1032, 0x1037),
     (0x1039, 0x103A), (0x103D, 0x103E), (0x1058, 0x1059), (0x105E, 0x1060), (0x1071, 0x1074),
     (0x1082, 0x1082), (0x1085, 0x1086), (0x108D, 0x108D), (0x109D, 0x109D), (0x10FC, 0x10FC),
     (0x135D, 0x135F), (0x1712, 0x1714), (0x1732, 0x1733), (0x1752, 0x1753), (0x1772, 0x1773),
     (0x17B4, 0x17B5), (0x17B7, 0x17BD), (0x17C6, 0x17C6), (0x17C9, 0x17D3), (0x17D7, 0x17D7),
     (0x17DD, 0x17DD), (0x180B, 0x180F), (0x1843, 0x1843), (0x1885, 0x1886), (0x18A9, 0x18A9),
     (0x1920, 0x1922), (0x1927, 0x1928), (0x1932, 0x1932), (0x1939, 0x193B), (0x1A17, 0x1A18),
     (0x1A1B, 0x1A1B), (0x1A56, 0x1A56), (0x1A58, 0x1A5E), (0x1A60, 0x1A60), (0x1A62, 0x1A62),
     (0x1A65, 0x1A6C), (0x1A73, 0x1A7C), (0x1A7F, 0x1A7F), (0x1AA7, 0x1AA7), (0x1AB0, 0x1ACE),
     (0x1B00, 0x1B03), (0x1B34, 0x1B34), (0x1B36, 0x1B3A), (0x1B3C, 0x1B3C), (0x1B42, 0x1B42),
     (0x1B6B, 0x1B73), (0x1B80, 0x1B81), (0x1BA2, 0x1BA5), (0x1BA8, 0x1BA9), (0x1BAB, 0x1BAD),
     (0x1BE6, 0x1BE6), (0x1BE8, 0x1BE9), (0x1BED, 0x1BED), (0x1BEF, 0x1BF1), (0x1C2C, 0x1C33),
     (0x1C36, 0x1C37), (0x1C78, 0x1C7D), (0x1CD0, 0x1CD2), (0x1CD4, 0x1CE0), (0x1CE2, 0x1CE8),
     (0x1CED, 0x1CED), (0x1CF4, 0x1CF4), (0x1CF8, 0x1CF9), (0x1D2C, 0x1D6A), (0x1D78, 0x1D78),
     (0x1D9B, 0x1DFF), (0x1FBD, 0x1FBD), (0x1FBF, 0x1FC1), (0x1FCD, 0x1FCF), (0x1FDD, 0x1FDF),
     (0x1FED, 0x1FEF), (0x1FFD, 0x1FFE), (0x200B, 0x200F), (0x2018, 0x2019), (0x2024, 0x2024),
     (0x2027, 0x2027), (0x202A, 0x202E), (0x2060, 0x2064), (0x2066, 0x206F), (0x2071, 0x2071),
     (0x207F, 0x207F), (0x2090, 0x209C), (0x20D0, 0x20F0), (0x2C7C, 0x2C7D), (0x2CEF, 0x2CF1),
     (0x2D6F, 0x2D6F), (0x2D7F, 0x2D7F), (0x2DE0, 0x2DFF), (0x2E2F, 0x2E2F), (0x3005, 0x3005),
     (0x302A, 0x302D), (0x3031, 0x3035), (0x303B, 0x303B), (0x3099, 0x309E), (0x30FC, 0x30FE),
     (0xA015, 0xA015), (0xA4F8, 0xA4FD), (0xA60C, 0xA60C), (0xA66F, 0xA672), (0xA674, 0xA67D),
     (0xA67F, 0xA67F), (0xA69C, 0xA69F), (0xA6F0, 0xA6F1), (0xA700, 0xA721), (0xA770, 0xA770),
     (0xA788, 0xA78A), (0xA7F2, 0xA7F4), (0xA7F8, 0xA7F9), (0xA802, 0xA802), (0xA806, 0xA806),
     (0xA80B, 0xA80B), (0xA825, 0xA826), (0xA82C, 0xA82C), (0xA8C4, 0xA8C5), (0xA8E0, 0xA8F1),
     (0xA8FF, 0xA8FF), (0xA926, 0xA92D), (0xA947, 0xA951), (0xA980, 0xA982), (0xA9B3, 0xA9B3),
     (0xA9B6, 0xA9B9), (0xA9BC, 0xA9BD), (0xA9CF, 0xA9CF), (0xA9E5, 0xA9E6), (0xAA29, 0xAA2E),
     (0xAA31, 0xAA32), (0xAA35, 0xAA36), (0xAA43, 0xAA43), (0xAA4C, 0xAA4C), (0xAA70, 0xAA70),
     (0xAA7C, 0xAA7C), (0xAAB0, 0xAAB0), (0xAAB2, 0xAAB4), (0xAAB7, 0xAAB8), (0xAABE, 0xAABF),
     (0xAAC1, 0xAAC1), (0xAADD, 0xAADD), (0xAAEC, 0xAAED), (0xAAF3, 0xAAF4), (0xAAF6, 0xAAF6),
     (0xAB5B, 0xAB5F), (0xAB69, 0xAB6B), (0xABE5, 0xABE5), (0xABE8, 0xABE8), (0xABED, 0xABED),
     (0xFB1E, 0xFB1E), (0xFBB2, 0xFBC2), (0xFE00, 0xFE0F), (0xFE13, 0xFE13), (0xFE20, 0xFE2F),
     (0xFE52, 0xFE52), (0xFE55, 0xFE55), (0xFEFF, 0xFEFF), (0xFF07, 0xFF07), (0xFF0E, 0xFF0E),
     (0xFF1A, 0xFF1A), (0xFF3E, 0xFF3E), (0xFF40, 0xFF40), (0xFF70, 0xFF70), (0xFF9E, 0xFF9F),
     (0xFFE3, 0xFFE3), (0xFFF9, 0xFFFB), (0x101FD, 0x101FD), (0x102E0, 0x102E0),
     (0x10376, 0x1037A), (0x10780, 0x10785), (0x10787, 0x107B0), (0x107B2, 0x107BA),
     (0x10A01, 0x10A03), (0x10A05, 0x10A06), (0x10A0C, 0x10A0F), (0x10A38, 0x10A3A),
     (0x10A3F, 0x10A3F), (0x10AE5, 0x10AE6), (0x10D24, 0x10D27), (0x10EAB, 0x10EAC),
     (0x10F46, 0x10F50), (0x10F82, 0x10F85), (0x11001, 0x11001), (0x11038, 0x11046),
     (0x11070, 0x11070), (0x11073, 0x11074), (0x1107F, 0x11081), (0x110B3, 0x110B6),
     (0x110B9, 0x110BA), (0x110BD, 0x110BD), (0x110C2, 0x110C2), (0x110CD, 0x110CD),
     (0x11100, 0x11102), (0x11127, 0x1112B), (0x1112D, 0x11134), (0x11173, 0x11173),
     (0x11180, 0x11181), (0x111B6, 0x111BE), (0x111C9, 0x111CC), (0x111CF, 0x111CF),
     (0x1122F, 0x11231), (0x11234, 0x11234), (0x11236, 0x11237), (0x1123E, 0x1123E),
     (0x112DF, 0x112DF), (0x112E3, 0x112EA), (0x11300, 0x11301), (0x1133B, 0x1133C),
     (0x11340, 0x11340), (0x11366, 0x1136C), (0x11370, 0x11374), (0x11438, 0x1143F),
     (0x11442, 0x11444), (0x11446, 0x11446), (0x1145E, 0x1145E), (0x114B3, 0x114B8),
     (0x114BA, 0x114BA), (0x114BF, 0x114C0), (0x114C2, 0x114C3), (0x115B2, 0x115B5),
     (0x115BC, 0x115BD), (0x115BF, 0x115C0), (0x115DC, 0x115DD), (0x11633, 0x1163A),
     (0x1163D, 0x1163D), (0x1163F, 0x11640), (0x116AB, 0x116AB), (0x116AD, 0x116AD),
     (0x116B0, 0x116B5), (0x116B7, 0x116B7), (0x1171D, 0x1171F), (0x11722, 0x11725),
     (0x11727, 0x1172B), (0x1182F, 0x11837), (0x11839, 0x1183A), (0x1193B, 0x1193C),
     (0x1193E, 0x1193E), (0x11943, 0x11943), (0x119D4, 0x119D7), (0x119DA, 0x119DB),
     (0x119E0, 0x119E0), (0x11A01, 0x11A0A), (0x11A33, 0x11A38), (0x11A3B, 0x11A3E),
     (0x11A47, 0x11A47), (0x11A51, 0x11A56), (0x11A59, 0x11A5B), (0x11A8A, 0x11A96),
     (0x11A98, 0x11A99), (0x11C30, 0x11C36), (0x11C38, 0x11C3D), (0x11C3F, 0x11C3F),
     (0x11C92, 0x11CA7), (0x11CAA, 0x11CB0), (0x11CB2, 0x11CB3), (0x11CB5, 0x11CB6),
     (0x11D31, 0x11D36), (0x11D3A, 0x11D3A), (0x11D3C, 0x11D3D), (0x11D3F, 0x11D45),
     (0x11D47, 0x11D47), (0x11D90, 0x11D91), (0x11D95, 0x11D95), (0x11D97, 0x11D97),
     (0x11EF3, 0x11EF4), (0x13430, 0x13438), (0x16AF0, 0x16AF4), (0x16B30, 0x16B36),
     (0x16B40, 0x16B43), (0x16F4F, 0x16F4F), (0x16F8F, 0x16F9F), (0x16FE0, 0x16FE1),
     (0x16FE3, 0x16FE4), (0x1AFF0, 0x1AFF3), (0x1AFF5, 0x1AFFB), (0x1AFFD, 0x1AFFE),
     (0x1BC9D, 0x1BC9E), (0x1BCA0, 0x1BCA3), (0x1CF00, 0x1CF2D), (0x1CF30, 0x1CF46),
     (0x1D167, 0x1D169), (0x1D173, 0x1D182), (0x1D185, 0x1D18B), (0x1D1AA, 0x1D1AD),
     (0x1D242, 0x1D244), (0x1DA00, 0x1DA36), (0x1DA3B, 0x1DA6C), (0x1DA75, 0x1DA75),
     (0x1DA84, 0x1DA84), (0x1DA9B, 0x1DA9F), (0x1DAA1, 0x1DAAF), (0x1E000, 0x1E006),
     (0x1E008, 0x1E018), (0x1E01B, 0x1E021), (0x1E023, 0x1E024), (0x1E026, 0x1E02A),
     (0x1E130, 0x1E13D), (0x1E2AE, 0x1E2AE), (0x1E2EC, 0x1E2EF), (0x1E8D0, 0x1E8D6),
     (0x1E944, 0x1E94B), (0x1F3FB, 0x1F3FF), (0xE0001, 0xE0001), (0xE0020, 0xE007F),
     (0xE0100, 0xE01EF)]"

definition in_ranges :: "int \<Rightarrow> (int \<times> int) list \<Rightarrow> bool" where
  "in_ranges c rs = list_ex (\<lambda>(lo, hi). lo \<le> c \<and> c \<le> hi) rs"

definition is_cased :: "int \<Rightarrow> bool" where
  "is_cased c =
     (if c < 0x80 then (0x41 \<le> c \<and> c \<le> 0x5A) \<or> (0x61 \<le> c \<and> c \<le> 0x7A)
      else in_ranges c cased_ranges)"

definition is_case_ignorable :: "int \<Rightarrow> bool" where
  "is_case_ignorable c =
     (if c < 0x80 then c \<in> set [0x27, 0x2E, 0x3A, 0x5E, 0x60]
      else in_ranges c case_ignorable_ranges)"

text \<open>\<open>prev\<close> holds the code points prev the sigma, the nearest first.\<close>

definition final_sigma :: "int list \<Rightarrow> int list \<Rightarrow> bool" where
  "final_sigma prev after =
     ((case dropWhile is_case_ignorable prev of [] \<Rightarrow> False | p # ps \<Rightarrow> is_cased p) \<and>
      (case dropWhile is_case_ignorable after of [] \<Rightarrow> True | n # ns \<Rightarrow> \<not> is_cased n))"

fun lower_from :: "int list \<Rightarrow> int list \<Rightarrow> int list" where
  "lower_from prev [] = []"
| "lower_from prev (c # rest) =
     (if c = 0x3A3 then [if final_sigma prev rest then 0x3C2 else 0x3C3] else lower_cp c)
       @ lower_from (c # prev) rest"

definition py_lower :: "string \<Rightarrow> string" where
  "py_lower s = utf8_encode (lower_from [] (utf8_decode s))"

text \<open>\<open>s.replace(LF, ' ')\<close> for the line feed \<open>LF\<close>: every line feed becomes a space.\<close>

definition py_replace_nl :: "string \<Rightarrow> string" where
  "py_replace_nl s = map (\<lambda>c. if c = CHR 0x0A then CHR '' '' else c) s"

text \<open>\<open>sub in s\<close> on strings: \<open>sub\<close> occurs in \<open>s\<close> as a contiguous run.\<close>

fun py_in :: "string \<Rightarrow> string \<Rightarrow> bool" where
  "py_in sub [] = (sub = [])"
| "py_in sub (c # s) = (take (length sub) (c # s) = sub \<or> py_in sub s)"

text \<open>\<open>a < b\<close> on strings: lexicographic, character by character.\<close>

fun py_str_less :: "string \<Rightarrow> string \<Rightarrow> bool" where
  "py_str_less [] [] = False"
| "py_str_less [] (y # ys) = True"
| "py_str_less (x # xs) [] = False"
| "py_str_less (x # xs) (y # ys) =
     ((of_char x :: nat) < of_char y \<or> (x = y \<and> py_str_less xs ys))"

text \<open>\<open>s.split("T")[0]\<close>: the part of \<open>s\<close> before its first \<open>T\<close>, all of \<open>s\<close> without one.\<close>

definition split_T_first :: "string \<Rightarrow> string" where
  "split_T_first s = takeWhile (\<lambda>c. c \<noteq> CHR ''T'') s"

text \<open>\<open>sep.join(xs)\<close>.\<close>

fun py_join :: "string \<Rightarrow> string list \<Rightarrow> string" where
  "py_join sep [] = []"
| "py_join sep [x] = x"
| "py_join sep (x # y # ys) = x @ sep @ py_join sep (y # ys)"

text \<open>Decimal rendering of integers, as \<open>str(n)\<close>, \<open>%d\<close> and f-strings give it.\<close>

definition digit_char :: "nat \<Rightarrow> char" where
  "digit_char n = char_of (48 + n)"

function str_nat :: "nat \<Rightarrow> string" where
  "str_nat n = (if n < 10 then [digit_char n] else str_nat (n div 10) @ [digit_char (n mod 10)])"
  by pat_completeness auto
termination
  by (relation "measure id") auto

declare str_nat.simps [simp del]

definition str_int :: "int \<Rightarrow> string" where
  "str_int i = (if i < 0 then ''-'' @ str_nat (nat (- i)) else str_nat (nat i))"

text \<open>
  \<open>urllib.parse.quote(s)\<close> with its default \<open>safe='/'\<close>: letters, digits and the
  characters \<open>_.-~/\<close> stay, every other byte of the UTF-8 encoding becomes \<open>%XX\<close>.
\<close>

definition hex_digit :: "nat \<Rightarrow> char" where
  "hex_digit n = ''0123456789ABCDEF'' ! n"

definition quote_safe :: "char \<Rightarrow> bool" where
  "quote_safe c =
     (let n = (of_char c :: nat)
      in (65 \<le> n \<and> n \<le> 90) \<or> (97 \<le> n \<and> n \<le> 122) \<or> (48 \<le> n \<and> n \<le> 57)
         \<or> c \<in> set ''_.-~/'')"

definition quote :: "string \<Rightarrow> string" where
  "quote s =
     concat (map (\<lambda>c. if quote_safe c then [c]
                        else [CHR ''%'', hex_digit (of_char c div 16), hex_digit (of_char c mod 16)]) s)"

text \<open>A Python dict keeps its keys distinct and in insertion order: an association list.\<close>

type_synonym ('k, 'v) dict = "('k \<times> 'v) list"

text \<open>\<open>d[k] = v\<close>: an existing key keeps its position, a new key goes to the end.\<close>

fun dict_set :: "('k, 'v) dict \<Rightarrow> 'k \<Rightarrow> 'v \<Rightarrow> ('k, 'v) dict" where
  "dict_set [] k v = [(k, v)]"
| "dict_set ((k', v') # d) k v =
     (if k' = k then (k, v) # d else (k', v') # dict_set d k v)"

section \<open>Matched papers and grouped results\<close>

text \<open>The dict that \<open>search_group\<close> appends for each match (source lines 99 to 106).\<close>

record paper =
  title :: string
  authors :: string
  summary :: string
  link :: string
  keyword :: string
  group' :: string

type_synonym grouped = "(string, paper list) dict"

section \<open>The deduplicator\<close>

text \<open>\<open>title_key = paper["title"].strip().lower()\<close> (source line 163).\<close>

definition title_key :: "paper \<Rightarrow> string" where
  "title_key p = py_lower (py_strip (title p))"

text \<open>
  The inner loop of \<open>deduplicate_grouped_entries\<close> (lines 162 to 166). The state is the
  set \<open>seen_titles\<close> and the list object stored under \<open>deduped[group_name]\<close>, which the
  loop appends to.
\<close>

fun dedup_papers :: "string set \<Rightarrow> paper list \<Rightarrow> paper list \<Rightarrow> string set \<times> paper list" where
  "dedup_papers seen_titles kept [] = (seen_titles, kept)"
| "dedup_papers seen_titles kept (p # papers) =
     (if title_key p \<notin> seen_titles
      then dedup_papers (insert (title_key p) seen_titles) (kept @ [p]) papers
      else dedup_papers seen_titles kept papers)"

text \<open>
  The outer loop (lines 160 to 166). \<open>deduped[group_name] = []\<close> binds the key before the
  inner loop fills the list in place; the model binds the key to the list the inner loop
  started from \<open>[]\<close> has filled, which gives the same dict.
\<close>

fun dedup_groups :: "string set \<Rightarrow> grouped \<Rightarrow> grouped \<Rightarrow> grouped" where
  "dedup_groups seen_titles deduped [] = deduped"
| "dedup_groups seen_titles deduped ((group_name, papers) # rest) =
     (case dedup_papers seen_titles [] papers of
        (seen_titles', kept) \<Rightarrow>
          dedup_groups seen_titles' (dict_set deduped group_name kept) rest)"

definition deduplicate_grouped_entries :: "grouped \<Rightarrow> grouped" where
  "deduplicate_grouped_entries grouped_entries = dedup_groups {} [] grouped_entries"

section \<open>Configuration\<close>

text \<open>
  The module-level constants of the script (lines 14 to 60) as a record, so that the flag
  \<open>STRICT_CATEGORY_MODE\<close> can be either way; \<open>default_config\<close> holds the values the
  source assigns.
\<close>

record config =
  RECEIVER_EMAILS :: "string list"
  STRICT_CATEGORY_MODE :: bool
  DAYS_BACK :: int
  KEYWORD_GROUPS :: "(string, string list) dict"
  CATEGORIES :: "string list"
  MAX_RESULTS :: nat
  BASE_URL :: string

definition default_config :: config where
  "default_config = \<lparr>
     RECEIVER_EMAILS = [''foggymature@gmail.com'', ''mobius3516@gmail.com''],
     STRICT_CATEGORY_MODE = True,
     DAYS_BACK = 5,
     KEYWORD_GROUPS = [
       (''Integrated Photonic Materials'',
          [''SiN'', ''silicon nitride'', ''AlN'', ''aluminum nitride'',
           ''TFLN'', ''thin-film lithium niobate'',
           ''BTO'', ''barium titanate'',
           ''thin-film lithium tantalate'', ''lithium tantalate'',
           ''heterogeneous integration'']),
       (''Nonlinear & EO Devices'',
          [''nonlinear frequency conversion'', ''electro-optic modulator'',
           ''on-chip comb'',
           ''acousto-optic'', ''acousto-optic modulator'',
           ''optical nonreciprocity'', ''nonreciprocal optics'']),
       (''Multimodal Imaging & ML'',
          [''microsphere imaging'', ''endomicroscopy'',
           ''photonic neural network'', ''on-chip machine learning'',
           ''optical computing'']),
       (''Quantum Optics & Photonics'',
          [''single photon'', ''quantum source'',
           ''entangled photons'', ''quantum interference'', ''quantum memory'']),
       (''Microwave-to-Optical & Synthetic Dimensions'',
          [''microwave-to-optical transducer'', ''microwave to optical conversion'',
           ''optomechanical interface'', ''electromechanical interface'',
           ''optical synthetic dimension'', ''synthetic frequency dimension'',
           ''synthetic photonics'']),
       (''Core Topics (LNOI, Quantum etc)'',
          [''LNOI'', ''lithium niobate'', ''LiNbO3'', ''SPDC'', ''electro-optic'',
           ''super-resolution imaging'', ''optical fiber endoscope''])],
     CATEGORIES = [''physics.optics'', ''quant-ph'', ''eess.SP'',
                   ''cs.CV'', ''cs.LG'', ''physics.app-ph''],
     MAX_RESULTS = 50,
     BASE_URL = ''http://export.arxiv.org/api/query?'' \<rparr>"

section \<open>Feed entries and errors\<close>

text \<open>
  A feed entry is a duck-typed object: each attribute the script reads may be missing, and
  reading a missing attribute raises \<open>AttributeError\<close>. A field is \<open>None\<close> when the
  attribute is missing. \<open>tags\<close> is also \<open>None\<close> when the attribute is there but cannot
  be iterated (both raise inside the \<open>try\<close> of \<open>is_category_allowed\<close>). An author is
  \<open>None\<close> when it has no \<open>name\<close>.
\<close>

datatype tag =
    TagDict "(string \<times> string option) list"
  | TagStr string
  | TagOther

text \<open>
  \<open>TagDict\<close> is a dict with string keys; a value is \<open>Some s\<close> for the string \<open>s\<close>
  and \<open>None\<close> for any value that is not a string, which equals no category.
\<close>

record entry =
  published :: "string option"
  tags :: "tag list option"
  e_title :: "string option"
  e_summary :: "string option"
  e_authors :: "string option list option"
  e_link :: "string option"

datatype smtp_step = Connect | Ehlo1 | StartTLS | Ehlo2 | Login | Sendmail | Quit

text \<open>
  The exceptions that end a run: \<open>AttributeError\<close>, raised by the read of a missing
  attribute of an entry, and \<open>SMTPError step\<close>, the exception that the call \<open>step\<close> of
  the mail session raised, whatever its class (the handler of \<open>send_email\<close> catches
  \<open>Exception\<close>).
\<close>

datatype error = AttributeError | SMTPError smtp_step

section \<open>The entry filter and the search\<close>

definition keyword_matched :: "string \<Rightarrow> string \<Rightarrow> bool" where
  "keyword_matched text' keyword' = py_in (py_lower keyword') (py_lower text')"

text \<open>The loop of lines 74 to 78, collecting \<open>categories\<close>.\<close>

fun tag_terms :: "string option list \<Rightarrow> tag list \<Rightarrow> string option list" where
  "tag_terms categories [] = categories"
| "tag_terms categories (TagDict d # ts) =
     (case map_of d ''term'' of
        Some term' \<Rightarrow> tag_terms (categories @ [term']) ts
      | None \<Rightarrow> tag_terms categories ts)"
| "tag_terms categories (TagStr s # ts) = tag_terms (categories @ [Some s]) ts"
| "tag_terms categories (TagOther # ts) = tag_terms categories ts"

definition is_category_allowed :: "config \<Rightarrow> entry \<Rightarrow> bool" where
  "is_category_allowed cfg e =
     (if \<not> STRICT_CATEGORY_MODE cfg then True
      else case tags e of
             None \<Rightarrow> False
           | Some ts \<Rightarrow>
               (let categories = tag_terms [] ts
                in list_ex (\<lambda>cat. Some cat \<in> set categories) (CATEGORIES cfg)))"

text \<open>\<open>', '.join(author.name for author in entry.authors)\<close>.\<close>

fun author_names :: "string option list \<Rightarrow> error + string list" where
  "author_names [] = Inr []"
| "author_names (None # as) = Inl AttributeError"
| "author_names (Some name # as) =
     (case author_names as of Inl err \<Rightarrow> Inl err | Inr names \<Rightarrow> Inr (name # names))"

text \<open>
  The body of the loop over \<open>feed.entries\<close> (lines 94 to 106) for one entry: an error, or
  the paper to append to \<open>matched\<close>, or nothing to append.
\<close>

definition match_entry :: "config \<Rightarrow> string \<Rightarrow> string \<Rightarrow> string \<Rightarrow> entry \<Rightarrow> error + paper option" where
  "match_entry cfg start_date group_name kw e =
     (case published e of
        None \<Rightarrow> Inl AttributeError
      | Some pub \<Rightarrow>
          if \<not> py_str_less (split_T_first pub) start_date \<and> is_category_allowed cfg e
          then (case e_title e of
                  None \<Rightarrow> Inl AttributeError
                | Some t \<Rightarrow>
                   (case e_summary e of
                      None \<Rightarrow> Inl AttributeError
                    | Some sm \<Rightarrow>
                       (let title' = py_replace_nl (py_strip t);
                            abstract = py_replace_nl (py_strip sm)
                        in if keyword_matched title' kw \<or> keyword_matched abstract kw
                           then (case e_authors e of
                                   None \<Rightarrow> Inl AttributeError
                                 | Some as \<Rightarrow>
                                    (case author_names as of
                                       Inl err \<Rightarrow> Inl err
                                     | Inr names \<Rightarrow>
                                        (case e_link e of
                                           None \<Rightarrow> Inl AttributeError
                                         | Some l \<Rightarrow>
                                            Inr (Some \<lparr> title = title',
                                                        authors = py_join '', '' names,
                                                        summary = abstract,
                                                        link = l,
                                                        keyword = kw,
                                                        group' = group_name \<rparr>))))
                           else Inr None)))
          else Inr None)"

fun search_entries ::
  "config \<Rightarrow> string \<Rightarrow> string \<Rightarrow> string \<Rightarrow> paper list \<Rightarrow> entry list \<Rightarrow> error + paper list" where
  "search_entries cfg start_date group_name kw matched [] = Inr matched"
| "search_entries cfg start_date group_name kw matched (e # es) =
     (case match_entry cfg start_date group_name kw e of
        Inl err \<Rightarrow> Inl err
      | Inr None \<Rightarrow> search_entries cfg start_date group_name kw matched es
      | Inr (Some p) \<Rightarrow> search_entries cfg start_date group_name kw (matched @ [p]) es)"

text \<open>The request URL of lines 88 to 90.\<close>

definition query_url :: "config \<Rightarrow> string \<Rightarrow> string" where
  "query_url cfg kw =
     (let encoded_kw = quote kw;
          cat_query = py_join ''+OR+'' (map (\<lambda>cat. ''cat:'' @ quote cat) (CATEGORIES cfg))
      in BASE_URL cfg @ ''search_query=(ti:'' @ encoded_kw @ ''+OR+abs:'' @ encoded_kw
           @ '')+AND+('' @ cat_query
           @ '')&sortBy=submittedDate&sortOrder=descending&max_results=''
           @ str_nat (MAX_RESULTS cfg))"

section \<open>The world outside the script\<close>

text \<open>
  The environment variables read at lines 12 and 13; \<open>os.getenv\<close> gives \<open>None\<close> for a
  variable that is not set.
\<close>

record env =
  SENDER_EMAIL :: "string option"
  SENDER_PASSWORD :: "string option"

text \<open>
  What the run reads from outside: \<open>feed url\<close> holds the entries \<open>feedparser.parse(url)\<close>
  returns (the keywords of the source are pairwise distinct, so a run requests each URL
  once), \<open>get_start_date_str g\<close> the string the call of \<open>get_start_date_str()\<close> made for
  group \<open>g\<close> returns (the clock is read once per group; the string is the UTC date
  \<open>DAYS_BACK\<close> days before, in the form year-month-day), \<open>today_str\<close> the local date
  read at line 184, \<open>relay step\<close> tells whether the relay lets the call \<open>step\<close> of
  the SMTP session go through (\<open>True\<close>) or makes it raise, and \<open>refused\<close> holds the
  recipient addresses the relay refuses.
\<close>

record world =
  feed :: "string \<Rightarrow> entry list"
  get_start_date_str :: "string \<Rightarrow> string"
  today_str :: string
  relay :: "smtp_step \<Rightarrow> bool"
  refused :: "string list"

text \<open>The message built at lines 135 to 138.\<close>

record message =
  msg_subject :: string
  msg_from :: "string option"
  msg_to :: string
  msg_body :: string

text \<open>The network calls of a run, in the order they are made.\<close>

datatype net_event =
    Fetch string
  | SmtpConnect string nat
  | SmtpEhlo
  | SmtpStartTLS
  | SmtpLogin "string option" "string option"
  | SmtpSendmail "string option" "string list" message
  | SmtpQuit

text \<open>The loop over the keywords of one group (lines 87 to 106).\<close>

fun search_keywords ::
  "config \<Rightarrow> world \<Rightarrow> string \<Rightarrow> string \<Rightarrow> net_event list \<Rightarrow> paper list \<Rightarrow> string list
     \<Rightarrow> net_event list \<times> (error + paper list)" where
  "search_keywords cfg w start_date group_name tr matched [] = (tr, Inr matched)"
| "search_keywords cfg w start_date group_name tr matched (kw # kws) =
     (let url = query_url cfg kw
      in case search_entries cfg start_date group_name kw matched (feed w url) of
           Inl err \<Rightarrow> (tr @ [Fetch url], Inl err)
         | Inr matched' \<Rightarrow>
             search_keywords cfg w start_date group_name (tr @ [Fetch url]) matched' kws)"

definition search_group ::
  "config \<Rightarrow> world \<Rightarrow> net_event list \<Rightarrow> string \<Rightarrow> string list
     \<Rightarrow> net_event list \<times> (error + paper list)" where
  "search_group cfg w tr group_name keywords =
     search_keywords cfg w (get_start_date_str w group_name) group_name tr [] keywords"

section \<open>The digest formatter\<close>

text \<open>
  The literals of \<open>format_digest\<close>, in UTF-8. The text of line 112 around the
  number of days is \<open>U+1F6D1 ' ' U+6700 U+8FD1 ' '\<close> before it and \<open>' '
  U+5929 U+5185 ' arXiv ' U+4E0A U+6CA1 U+6709 U+627E U+5230 U+5339 U+914D U+5173 U+952E
  U+8BCD U+7684 U+65B0 U+8BBA U+6587 U+3002\<close> after it.
\<close>

definition no_papers_head :: "string" where
  "no_papers_head =
     [CHR 0xF0, CHR 0x9F, CHR 0x9B, CHR 0x91] @ '' '' @ [CHR 0xE6, CHR 0x9C, CHR 0x80, CHR 0xE8,
       CHR 0xBF, CHR 0x91] @ '' ''"

definition no_papers_tail :: "string" where
  "no_papers_tail =
     '' '' @ [CHR 0xE5, CHR 0xA4, CHR 0xA9, CHR 0xE5, CHR 0x86, CHR 0x85] @ '' arXiv ''
       @ [CHR 0xE4, CHR 0xB8, CHR 0x8A, CHR 0xE6, CHR 0xB2, CHR 0xA1, CHR 0xE6, CHR 0x9C,
       CHR 0x89, CHR 0xE6, CHR 0x89, CHR 0xBE, CHR 0xE5, CHR 0x88, CHR 0xB0, CHR 0xE5, CHR 0x8C,
       CHR 0xB9, CHR 0xE9, CHR 0x85, CHR 0x8D, CHR 0xE5, CHR 0x85, CHR 0xB3, CHR 0xE9, CHR 0x94,
       CHR 0xAE, CHR 0xE8, CHR 0xAF, CHR 0x8D, CHR 0xE7, CHR 0x9A, CHR 0x84, CHR 0xE6, CHR 0x96,
       CHR 0xB0, CHR 0xE8, CHR 0xAE, CHR 0xBA, CHR 0xE6, CHR 0x96, CHR 0x87, CHR 0xE3, CHR 0x80,
       CHR 0x82]"

text \<open>
  The first line (line 114): \<open>U+1F4DA ' arXiv ' U+5173 U+952E U+8BCD U+8BBA U+6587
  U+66F4 U+65B0 U+5982 U+4E0B U+FF1A LF\<close>.
\<close>

definition intro_line :: "string" where
  "intro_line =
     [CHR 0xF0, CHR 0x9F, CHR 0x93, CHR 0x9A] @ '' arXiv '' @ [CHR 0xE5, CHR 0x85, CHR 0xB3,
       CHR 0xE9, CHR 0x94, CHR 0xAE, CHR 0xE8, CHR 0xAF, CHR 0x8D, CHR 0xE8, CHR 0xAE, CHR 0xBA,
       CHR 0xE6, CHR 0x96, CHR 0x87, CHR 0xE6, CHR 0x9B, CHR 0xB4, CHR 0xE6, CHR 0x96, CHR 0xB0,
       CHR 0xE5, CHR 0xA6, CHR 0x82, CHR 0xE4, CHR 0xB8, CHR 0x8B, CHR 0xEF, CHR 0xBC, CHR 0x9A,
       CHR 0x0A]"

text \<open>
  The header of a group (line 120): \<open>'#### ' U+3010\<close>, the group name,
  \<open>U+3011 ' ('\<close>, the number of papers, \<open>' ' U+7BC7 ')' LF\<close>.
\<close>

definition header_line :: "string \<Rightarrow> nat \<Rightarrow> string" where
  "header_line group_name n =
     ''#### '' @ [CHR 0xE3, CHR 0x80, CHR 0x90] @ group_name @ [CHR 0xE3, CHR 0x80, CHR 0x91]
       @ '' ('' @ str_nat n @ '' '' @ [CHR 0xE7, CHR 0xAF, CHR 0x87] @ '')'' @ [CHR 0x0A]"

text \<open>
  The six lines appended for paper number \<open>i\<close> (lines 123 to 128). The labels
  after the three spaces are \<open>U+4F5C U+8005\<close> (authors), \<open>U+5339 U+914D
  U+5173 U+952E U+8BCD U+FF08 U+7CBE U+786E U+FF09\<close> (matched keyword), \<open>U+5206
  U+7C7B U+9650 U+5B9A\<close> (categories), \<open>U+94FE U+63A5\<close> (link) and
  \<open>U+6458 U+8981\<close> (abstract), each followed by a colon and a space.
\<close>

definition paper_lines :: "config \<Rightarrow> nat \<Rightarrow> paper \<Rightarrow> string list" where
  "paper_lines cfg i p =
     [str_nat i @ ''. '' @ title p,
      ''   '' @ [CHR 0xE4, CHR 0xBD, CHR 0x9C, CHR 0xE8, CHR 0x80, CHR 0x85] @ '': '' @ authors p,
      ''   '' @ [CHR 0xE5, CHR 0x8C, CHR 0xB9, CHR 0xE9, CHR 0x85, CHR 0x8D, CHR 0xE5, CHR 0x85,
                CHR 0xB3, CHR 0xE9, CHR 0x94, CHR 0xAE, CHR 0xE8, CHR 0xAF, CHR 0x8D, CHR 0xEF,
                CHR 0xBC, CHR 0x88, CHR 0xE7, CHR 0xB2, CHR 0xBE, CHR 0xE7, CHR 0xA1, CHR 0xAE,
                CHR 0xEF, CHR 0xBC, CHR 0x89] @ '': '' @ keyword p,
      ''   '' @ [CHR 0xE5, CHR 0x88, CHR 0x86, CHR 0xE7, CHR 0xB1, CHR 0xBB, CHR 0xE9, CHR 0x99,
                CHR 0x90, CHR 0xE5, CHR 0xAE, CHR 0x9A] @ '': '' @ py_join '', '' (CATEGORIES cfg),
      ''   '' @ [CHR 0xE9, CHR 0x93, CHR 0xBE, CHR 0xE6, CHR 0x8E, CHR 0xA5] @ '': '' @ link p,
      ''   '' @ [CHR 0xE6, CHR 0x91, CHR 0x98, CHR 0xE8, CHR 0xA6, CHR 0x81] @ '': '' @ summary p
        @ [CHR 0x0A]]"

text \<open>
  The last line (line 130): \<open>LF U+1F4CA ' ' U+5171 U+5339 U+914D U+5230 ' '\<close>,
  the total, \<open>' ' U+7BC7 U+8BBA U+6587 U+3002\<close>.
\<close>

definition total_line :: "nat \<Rightarrow> string" where
  "total_line total_papers =
     [CHR 0x0A, CHR 0xF0, CHR 0x9F, CHR 0x93, CHR 0x8A] @ '' '' @ [CHR 0xE5, CHR 0x85, CHR 0xB1,
       CHR 0xE5, CHR 0x8C, CHR 0xB9, CHR 0xE9, CHR 0x85, CHR 0x8D, CHR 0xE5, CHR 0x88, CHR 0xB0]
       @ '' '' @ str_nat total_papers @ '' '' @ [CHR 0xE7, CHR 0xAF, CHR 0x87, CHR 0xE8,
       CHR 0xAE, CHR 0xBA, CHR 0xE6, CHR 0x96, CHR 0x87, CHR 0xE3, CHR 0x80, CHR 0x82]"

text \<open>The loop \<open>for i, paper in enumerate(papers, 1)\<close> (lines 122 to 128).\<close>

fun format_papers :: "config \<Rightarrow> string list \<Rightarrow> nat \<Rightarrow> paper list \<Rightarrow> string list" where
  "format_papers cfg lines i [] = lines"
| "format_papers cfg lines i (p # papers) =
     format_papers cfg (lines @ paper_lines cfg i p) (i + 1) papers"

text \<open>The loop over the groups (lines 117 to 128), on \<open>lines\<close> and \<open>total_papers\<close>.\<close>

fun format_groups ::
  "config \<Rightarrow> string list \<Rightarrow> nat \<Rightarrow> grouped \<Rightarrow> string list \<times> nat" where
  "format_groups cfg lines total_papers [] = (lines, total_papers)"
| "format_groups cfg lines total_papers ((group_name, papers) # rest) =
     (if papers = [] then format_groups cfg lines total_papers rest
      else format_groups cfg
             (format_papers cfg (lines @ [header_line group_name (length papers)]) 1 papers)
             (total_papers + length papers) rest)"

definition format_digest :: "config \<Rightarrow> grouped \<Rightarrow> string" where
  "format_digest cfg grouped_entries =
     (if list_all (\<lambda>(group_name, papers). length papers = 0) grouped_entries
      then no_papers_head @ str_int (DAYS_BACK cfg) @ no_papers_tail
      else case format_groups cfg [intro_line] 0 grouped_entries of
             (lines, total_papers) \<Rightarrow> py_join [CHR 0x0A] (lines @ [total_line total_papers]))"

section \<open>The mailer\<close>

text \<open>
  The calls inside the \<open>try\<close> of \<open>send_email\<close> (lines 141 to 149), made in order until
  one raises. The handler prints and re-raises, so the exception leaves \<open>send_email\<close>.
  The script itself never tests the sender address or the password: a value \<open>None\<close> is
  stored in the header and handed to \<open>login\<close> and \<open>sendmail\<close> like any other, and what
  the library and the relay make of it is the outcome of that call.
\<close>

fun smtp_session ::
  "(smtp_step \<Rightarrow> bool) \<Rightarrow> net_event list \<Rightarrow> (smtp_step \<times> net_event) list
     \<Rightarrow> net_event list \<times> (error + unit)" where
  "smtp_session rl tr [] = (tr, Inr ())"
| "smtp_session rl tr ((step, ev) # calls) =
     (if rl step then smtp_session rl (tr @ [ev]) calls
      else (tr @ [ev], Inl (SMTPError step)))"

text \<open>The calls of lines 141 to 149 with their arguments, each with the step it is.\<close>

definition smtp_calls :: "config \<Rightarrow> env \<Rightarrow> message \<Rightarrow> (smtp_step \<times> net_event) list" where
  "smtp_calls cfg ev msg =
     [(Connect, SmtpConnect ''smtp.gmail.com'' 587),
      (Ehlo1, SmtpEhlo),
      (StartTLS, SmtpStartTLS),
      (Ehlo2, SmtpEhlo),
      (Login, SmtpLogin (SENDER_EMAIL ev) (SENDER_PASSWORD ev)),
      (Sendmail, SmtpSendmail (SENDER_EMAIL ev) (RECEIVER_EMAILS cfg) msg),
      (Quit, SmtpQuit)]"

text \<open>
  Whether a call of the session returns. For every call but \<open>sendmail\<close> that is up to
  the relay. \<open>smtplib.SMTP.sendmail\<close> first quotes the sender address, and
  \<open>quoteaddr\<close> raises \<open>AttributeError\<close> on \<open>None\<close> (it calls \<open>strip\<close> on the
  address); then it collects the refused recipients in a dict keyed by address, raises
  when every recipient is refused (the dict has as many entries as the recipient list)
  and otherwise returns the dict, which line 148 does not look at.
\<close>

definition refused_recipients :: "config \<Rightarrow> world \<Rightarrow> string list" where
  "refused_recipients cfg w = remdups (filter (\<lambda>r. r \<in> set (refused w)) (RECEIVER_EMAILS cfg))"

definition call_returns :: "config \<Rightarrow> env \<Rightarrow> world \<Rightarrow> smtp_step \<Rightarrow> bool" where
  "call_returns cfg ev w step =
     (if step = Sendmail
      then SENDER_EMAIL ev \<noteq> None \<and> relay w Sendmail \<and>
           length (refused_recipients cfg w) \<noteq> length (RECEIVER_EMAILS cfg)
      else relay w step)"

definition send_email ::
  "config \<Rightarrow> env \<Rightarrow> world \<Rightarrow> net_event list \<Rightarrow> string \<Rightarrow> string
     \<Rightarrow> net_event list \<times> (error + unit)" where
  "send_email cfg ev w tr subject body =
     (let msg = \<lparr> msg_subject = subject,
                   msg_from = SENDER_EMAIL ev,
                   msg_to = py_join '', '' (RECEIVER_EMAILS cfg),
                   msg_body = body \<rparr>
      in smtp_session (call_returns cfg ev w) tr (smtp_calls cfg ev msg))"

section \<open>The main flow\<close>

text \<open>The loop of lines 175 to 179, on \<open>all_grouped\<close> and \<open>total_groups_with_hits\<close>.\<close>

fun search_all ::
  "config \<Rightarrow> world \<Rightarrow> net_event list \<Rightarrow> grouped \<Rightarrow> nat \<Rightarrow> (string, string list) dict
     \<Rightarrow> net_event list \<times> (error + grouped \<times> nat)" where
  "search_all cfg w tr all_grouped total_groups_with_hits [] =
     (tr, Inr (all_grouped, total_groups_with_hits))"
| "search_all cfg w tr all_grouped total_groups_with_hits ((group_name, kw_list) # rest) =
     (case search_group cfg w tr group_name kw_list of
        (tr', Inl err) \<Rightarrow> (tr', Inl err)
      | (tr', Inr results) \<Rightarrow>
          search_all cfg w tr' (dict_set all_grouped group_name results)
            (if results \<noteq> [] then total_groups_with_hits + 1 else total_groups_with_hits)
            rest)"

text \<open>
  The subject of line 185: \<open>U+1F4EC ' arXiv Digest ' U+2013 ' '\<close>, the date,
  \<open>' | '\<close>, the counter, \<open>' Groups Matched'\<close>.
\<close>

definition subject_line :: "string \<Rightarrow> nat \<Rightarrow> string" where
  "subject_line today n =
     [CHR 0xF0, CHR 0x9F, CHR 0x93, CHR 0xAC] @ '' arXiv Digest '' @ [CHR 0xE2, CHR 0x80,
       CHR 0x93] @ '' '' @ today @ '' | '' @ str_nat n @ '' Groups Matched''"

text \<open>
  The script from line 171 on: the network calls made, and \<open>Inr ()\<close> when the script runs
  to its end or \<open>Inl\<close> the exception that ends it.
\<close>

definition main :: "config \<Rightarrow> env \<Rightarrow> world \<Rightarrow> net_event list \<times> (error + unit)" where
  "main cfg ev w =
     (case search_all cfg w [] [] 0 (KEYWORD_GROUPS cfg) of
        (tr, Inl err) \<Rightarrow> (tr, Inl err)
      | (tr, Inr (all_grouped, total_groups_with_hits)) \<Rightarrow>
          (let all_grouped_deduped = deduplicate_grouped_entries all_grouped;
               email_body = format_digest cfg all_grouped_deduped;
               subject = subject_line (today_str w) total_groups_with_hits
           in send_email cfg ev w tr subject email_body))"

section \<open>Reference definitions for the claims\<close>

text \<open>
  The normalized title of the specification: the title trimmed, then lowercased, which is
  what "case-insensitive, trimmed" stands for.
\<close>

definition normalized_title :: "string \<Rightarrow> string" where
  "normalized_title t = py_lower (py_strip t)"

text \<open>
  Two code points that differ at most in case: they have the same lowercase mapping, and
  they are alike for the rule of the final sigma.
\<close>

definition same_ignoring_case :: "int \<Rightarrow> int \<Rightarrow> bool" where
  "same_ignoring_case a b =
     (lower_cp a = lower_cp b \<and> (a = 0x3A3) = (b = 0x3A3) \<and>
      is_cased a = is_cased b \<and> is_case_ignorable a = is_case_ignorable b)"

text \<open>
  The stable first-occurrence filter, in the words of the specification: of a sequence
  \<open>xs\<close> that follows the matches \<open>earlier\<close>, the element at position \<open>j\<close> stays when no
  element of \<open>earlier\<close> and no element of \<open>xs\<close> before position \<open>j\<close> has its normalized
  title.
\<close>

definition first_wins_after :: "paper list \<Rightarrow> paper list \<Rightarrow> paper list" where
  "first_wins_after earlier xs =
     [xs ! j. j \<leftarrow> [0..<length xs],
        normalized_title (title (xs ! j))
          \<notin> (\<lambda>q. normalized_title (title q)) ` set (earlier @ take j xs)]"

definition first_wins :: "paper list \<Rightarrow> paper list" where
  "first_wins xs = first_wins_after [] xs"

text \<open>The same filter by recursion on the list, with the set of titles seen so far.\<close>

fun keep_new :: "string set \<Rightarrow> paper list \<Rightarrow> paper list" where
  "keep_new seen [] = []"
| "keep_new seen (p # ps) =
     (if title_key p \<notin> seen then p # keep_new (insert (title_key p) seen) ps
      else keep_new seen ps)"

fun keep_new_groups :: "string set \<Rightarrow> grouped \<Rightarrow> grouped" where
  "keep_new_groups seen [] = []"
| "keep_new_groups seen ((name, ps) # rest) =
     (name, keep_new seen ps) # keep_new_groups (seen \<union> title_key ` set ps) rest"

section \<open>Example inputs\<close>

definition mk_paper :: "string \<Rightarrow> string \<Rightarrow> string \<Rightarrow> paper" where
  "mk_paper t kw g =
     \<lparr> title = t, authors = ''A. Author'', summary = ''An abstract.'',
       link = ''http://arxiv.org/abs/2401.00001'', keyword = kw, group' = g \<rparr>"

definition grouped_example :: grouped where
  "grouped_example =
     [(''A'', [mk_paper ''Foo study'' ''foo'' ''A'',
              mk_paper '' FOO Study '' ''study'' ''A'',
              mk_paper ([CHR 0xC3, CHR 0x89] @ ''cole'') ''cole'' ''A'']),
      (''B'', [mk_paper ([CHR 0xC2, CHR 0xA0] @ ''foo study'' @ [CHR 0xE2, CHR 0x80, CHR 0x83])
                ''foo'' ''B'']),
      (''C'', [mk_paper ''Bar result'' ''bar'' ''C'',
              mk_paper ''Foo Study'' ''foo'' ''C'',
              mk_paper ([CHR 0xC3, CHR 0xA9] @ ''COLE'') ''cole'' ''C''])]"

text \<open>
  A calendar date (year, month, day) and its rendering by \<open>strftime("%Y-%m-%d")\<close>, which
  pads the month and the day to two digits; a year from 1000 to 9999 has four digits.
\<close>

type_synonym date = "nat \<times> nat \<times> nat"

fun zero_pad :: "nat \<Rightarrow> nat \<Rightarrow> string" where
  "zero_pad 0 n = []"
| "zero_pad (Suc w) n = zero_pad w (n div 10) @ [digit_char (n mod 10)]"

definition strftime_ymd :: "date \<Rightarrow> string" where
  "strftime_ymd dt =
     (case dt of (y, m, d) \<Rightarrow> zero_pad 4 y @ ''-'' @ zero_pad 2 m @ ''-'' @ zero_pad 2 d)"

definition date_less :: "date \<Rightarrow> date \<Rightarrow> bool" where
  "date_less a b =
     (case a of (y1, m1, d1) \<Rightarrow> case b of (y2, m2, d2) \<Rightarrow>
        y1 < y2 \<or> (y1 = y2 \<and> (m1 < m2 \<or> (m1 = m2 \<and> d1 < d2))))"

definition valid_date :: "date \<Rightarrow> bool" where
  "valid_date dt =
     (case dt of (y, m, d) \<Rightarrow> 1000 \<le> y \<and> y \<le> 9999 \<and> 1 \<le> m \<and> m \<le> 12 \<and> 1 \<le> d \<and> d \<le> 31)"

text \<open>
  An entry whose category tags cannot be used: the attribute is missing or cannot be
  iterated, or no tag yields a term (no string, and no dict with a \<open>term\<close> key).
\<close>

definition tags_unusable :: "entry \<Rightarrow> bool" where
  "tags_unusable e =
     (case tags e of
        None \<Rightarrow> True
      | Some ts \<Rightarrow>
          list_all (\<lambda>t. case t of TagDict d \<Rightarrow> map_of d ''term'' = None
                                | TagStr s \<Rightarrow> False
                                | TagOther \<Rightarrow> True) ts)"

definition entry_foo :: entry where
  "entry_foo = \<lparr> published = Some ''2024-01-02T09:30:00Z'',
       tags = Some [TagDict [(''term'', Some ''physics.optics''),
                             (''scheme'', Some ''http://arxiv.org/schemas/atom''),
                             (''label'', None)]],
       e_title = Some ''Foo study'',
       e_summary = Some ''We study foo.'',
       e_authors = Some [Some ''A. Author'', Some ''B. Writer''],
       e_link = Some ''http://arxiv.org/abs/2401.00001v1'' \<rparr>"

definition entry_bar_old :: entry where
  "entry_bar_old = \<lparr> published = Some ''2023-12-30T18:00:00Z'',
       tags = Some [TagDict [(''term'', Some ''quant-ph'')]],
       e_title = Some ''Bar result'',
       e_summary = Some ''A result on bar.'',
       e_authors = Some [Some ''C. Scholar''],
       e_link = Some ''http://arxiv.org/abs/2312.99999v1'' \<rparr>"

definition entry_no_tags :: entry where
  "entry_no_tags = entry_foo \<lparr> tags := None \<rparr>"

definition entry_no_published :: entry where
  "entry_no_published = entry_foo \<lparr> published := None \<rparr>"










text \<open>
  Reading a run: the groups of a grouped result that have a match, the subjects of the
  messages handed to \<open>sendmail\<close>, the kinds of relay calls, and the steps of the session
  in the order the script makes them.
\<close>

definition groups_with_matches :: "grouped \<Rightarrow> nat" where
  "groups_with_matches g = length (filter (\<lambda>(group_name, papers). papers \<noteq> []) g)"

definition sent_subjects :: "net_event list \<Rightarrow> string list" where
  "sent_subjects tr =
     concat (map (\<lambda>ev. case ev of SmtpSendmail f r m \<Rightarrow> [msg_subject m] | _ \<Rightarrow> []) tr)"

fun is_connect :: "net_event \<Rightarrow> bool" where
  "is_connect (SmtpConnect h p) = True"
| "is_connect _ = False"

fun is_login :: "net_event \<Rightarrow> bool" where
  "is_login (SmtpLogin u p) = True"
| "is_login _ = False"

fun is_sendmail :: "net_event \<Rightarrow> bool" where
  "is_sendmail (SmtpSendmail f r m) = True"
| "is_sendmail _ = False"

definition smtp_steps :: "smtp_step list" where
  "smtp_steps = [Connect, Ehlo1, StartTLS, Ehlo2, Login, Sendmail, Quit]"

text \<open>
  Example runs on the configuration of the source: a feed with no entries, a relay that
  refuses one of the two recipients, a relay that rejects the login, a feed that answers every query with the same entry, and a feed whose
  entry has no \<open>published\<close> attribute.
\<close>

definition env_example :: env where
  "env_example =
     \<lparr> SENDER_EMAIL = Some ''digest@example.org'', SENDER_PASSWORD = Some ''app-password'' \<rparr>"

definition no_secrets :: env where
  "no_secrets = \<lparr> SENDER_EMAIL = None, SENDER_PASSWORD = None \<rparr>"

definition world_quiet :: world where
  "world_quiet = \<lparr> feed = (\<lambda>url. []), get_start_date_str = (\<lambda>g. ''2024-01-01''),
       today_str = ''2024-01-06'', relay = (\<lambda>step. True), refused = [] \<rparr>"

definition world_one_refused :: world where
  "world_one_refused = world_quiet \<lparr> refused := [''mobius3516@gmail.com''] \<rparr>"

definition world_login_rejected :: world where
  "world_login_rejected = world_quiet \<lparr> relay := (\<lambda>step. step \<noteq> Login) \<rparr>"

definition entry_tfln :: entry where
  "entry_tfln = \<lparr> published = Some ''2024-01-03T11:00:00Z'',
       tags = Some [TagDict [(''term'', Some ''physics.optics'')]],
       e_title = Some ''Thin-film lithium niobate modulators'',
       e_summary = Some ''We report a modulator.'',
       e_authors = Some [Some ''A. Author''],
       e_link = Some ''http://arxiv.org/abs/2401.00002v1'' \<rparr>"

definition world_same_entry :: world where
  "world_same_entry = world_quiet \<lparr> feed := (\<lambda>url. [entry_tfln]) \<rparr>"

definition world_broken_entry :: world where
  "world_broken_entry = world_quiet \<lparr> feed := (\<lambda>url. [entry_no_published]) \<rparr>"

definition paper_tfln :: "string \<Rightarrow> string \<Rightarrow> paper" where
  "paper_tfln kw g = \<lparr> title = ''Thin-film lithium niobate modulators'', authors = ''A. Author'',
       summary = ''We report a modulator.'', link = ''http://arxiv.org/abs/2401.00002v1'',
       keyword = kw, group' = g \<rparr>"

definition all_grouped_tfln :: grouped where
  "all_grouped_tfln =
     [(''Integrated Photonic Materials'',
         [paper_tfln ''thin-film lithium niobate'' ''Integrated Photonic Materials'']),
      (''Nonlinear & EO Devices'', []),
      (''Multimodal Imaging & ML'', []),
      (''Quantum Optics & Photonics'', []),
      (''Microwave-to-Optical & Synthetic Dimensions'', []),
      (''Core Topics (LNOI, Quantum etc)'',
         [paper_tfln ''lithium niobate'' ''Core Topics (LNOI, Quantum etc)''])]"

section \<open>The deduplicator is a stable first-occurrence filter\<close>

lemma strip_points_left:
  "list_all py_isspace ws \<Longrightarrow> strip_points (ws @ cs) = strip_points cs"
  by (simp add: strip_points_def dropWhile_append2 list_all_iff)

lemma strip_points_right:
  assumes "list_all py_isspace ws"
  shows "strip_points (cs @ ws) = strip_points cs"
proof (cases "list_all py_isspace cs")
  case True
  have a: "dropWhile py_isspace (cs @ ws) = []"
    using True assms by (intro iffD2[OF dropWhile_eq_Nil_conv]) (auto simp: list_all_iff)
  have b: "dropWhile py_isspace cs = []"
    using True by (intro iffD2[OF dropWhile_eq_Nil_conv]) (auto simp: list_all_iff)
  show ?thesis by (simp only: strip_points_def a b)
next
  case False
  then obtain x where x: "x \<in> set cs" "\<not> py_isspace x" by (auto simp: list_all_iff)
  then have d: "dropWhile py_isspace (cs @ ws) = dropWhile py_isspace cs @ ws"
    by (rule dropWhile_append1)
  have "dropWhile py_isspace (rev ws @ rev (dropWhile py_isspace cs)) =
          dropWhile py_isspace (rev (dropWhile py_isspace cs))"
    using assms by (intro dropWhile_append2) (simp add: list_all_iff)
  then show ?thesis by (simp add: strip_points_def d)
qed

lemma strip_points_margins:
  "list_all py_isspace ws1 \<Longrightarrow> list_all py_isspace ws2 \<Longrightarrow>
   strip_points (ws1 @ cs @ ws2) = strip_points cs"
  by (simp add: strip_points_left strip_points_right)

lemma dropWhile_same:
  assumes "list_all2 same_ignoring_case xs ys"
  shows "list_all2 same_ignoring_case (dropWhile is_case_ignorable xs) (dropWhile is_case_ignorable ys)"
  using assms
proof (induction rule: list_all2_induct)
  case Nil
  show ?case by simp
next
  case (Cons x xs y ys)
  from Cons.hyps(1) have e: "is_case_ignorable x = is_case_ignorable y"
    by (simp add: same_ignoring_case_def)
  show ?case
    using Cons.hyps Cons.IH e by (cases "is_case_ignorable y") simp_all
qed

lemma final_sigma_same:
  assumes "list_all2 same_ignoring_case p p'" "list_all2 same_ignoring_case r r'"
  shows "final_sigma p r = final_sigma p' r'"
proof -
  have a: "(case xs of [] \<Rightarrow> b | x # xs' \<Rightarrow> f (is_cased x)) = (case ys of [] \<Rightarrow> b | y # ys' \<Rightarrow> f (is_cased y))"
    if "list_all2 same_ignoring_case xs ys" for xs ys b and f :: "bool \<Rightarrow> bool"
    using that by (cases xs; cases ys) (auto simp: same_ignoring_case_def)
  show ?thesis
    unfolding final_sigma_def
    using a[OF dropWhile_same[OF assms(1)], of False "\<lambda>x. x"]
          a[OF dropWhile_same[OF assms(2)], of True "\<lambda>x. \<not> x"]
    by simp
qed

lemma lower_from_same:
  assumes "list_all2 same_ignoring_case cs cs'" "list_all2 same_ignoring_case p p'"
  shows "lower_from p cs = lower_from p' cs'"
  using assms
proof (induction arbitrary: p p' rule: list_all2_induct)
  case Nil
  show ?case by simp
next
  case (Cons x xs y ys)
  have f: "final_sigma p xs = final_sigma p' ys"
    using Cons.prems Cons.hyps(2) by (rule final_sigma_same)
  have "list_all2 same_ignoring_case (x # p) (y # p')"
    using Cons.hyps(1) Cons.prems by simp
  from Cons.IH[OF this] f Cons.hyps(1) show ?case
    by (simp add: same_ignoring_case_def)
qed

lemma title_key_normalized: "title_key p = normalized_title (title p)"
  by (simp add: title_key_def normalized_title_def)

lemma normalized_title_trimmed:
  "utf8_decode t' = ws1 @ utf8_decode t @ ws2 \<Longrightarrow>
   list_all py_isspace ws1 \<Longrightarrow> list_all py_isspace ws2 \<Longrightarrow>
   normalized_title t' = normalized_title t"
  by (simp add: normalized_title_def py_strip_def strip_points_margins)

lemma normalized_title_case:
  "list_all2 same_ignoring_case (utf8_decode (py_strip t')) (utf8_decode (py_strip t)) \<Longrightarrow>
   normalized_title t' = normalized_title t"
  using lower_from_same[of "utf8_decode (py_strip t')" "utf8_decode (py_strip t)" "[]" "[]"]
  by (simp add: normalized_title_def py_lower_def)

lemma first_wins_after_keys:
  "first_wins_after earlier xs =
     [xs ! j. j \<leftarrow> [0..<length xs], title_key (xs ! j) \<notin> title_key ` set (earlier @ take j xs)]"
  by (simp add: first_wins_after_def title_key_normalized image_def)

lemma normalized_title_examples:
  "normalized_title '' FOO Study '' = ''foo study''"
  "normalized_title ([CHR 0xC2, CHR 0xA0] @ ''foo study'' @ [CHR 0xE2, CHR 0x80, CHR 0x83]) =
     ''foo study''"
  "normalized_title ([CHR 0xC3, CHR 0x89] @ ''COLE'') = [CHR 0xC3, CHR 0xA9] @ ''cole''"
  "normalized_title ([CHR 0xE2, CHR 0x84, CHR 0xAA] @ ''elvin'') = ''kelvin''"
  by code_simp+

lemma dedup_papers_eq:
  "dedup_papers seen kept ps = (seen \<union> title_key ` set ps, kept @ keep_new seen ps)"
  by (induction ps arbitrary: seen kept) auto

lemma keep_new_append:
  "keep_new seen (xs @ ys) = keep_new seen xs @ keep_new (seen \<union> title_key ` set xs) ys"
  by (induction xs arbitrary: seen) (auto simp: insert_absorb)

lemma first_wins_after_snoc:
  "first_wins_after earlier (xs @ [x]) =
     first_wins_after earlier xs @
       (if title_key x \<notin> title_key ` set (earlier @ xs) then [x] else [])"
  unfolding first_wins_after_keys
  by (auto simp: nth_append intro!: arg_cong[where f=concat] map_cong)

lemma keep_new_index:
  "keep_new (title_key ` set earlier) xs = first_wins_after earlier xs"
proof (induction xs rule: rev_induct)
  case Nil
  show ?case by (simp add: first_wins_after_keys)
next
  case (snoc x xs)
  show ?case
    by (simp add: keep_new_append first_wins_after_snoc snoc image_Un)
qed

lemma first_wins_after_append:
  "first_wins_after earlier (xs @ ys) =
     first_wins_after earlier xs @ first_wins_after (earlier @ xs) ys"
  by (simp add: keep_new_index[symmetric] keep_new_append image_Un)

lemma keys_keep_new: "seen \<union> title_key ` set (keep_new seen ps) = seen \<union> title_key ` set ps"
proof (induction ps arbitrary: seen)
  case Nil
  show ?case by simp
next
  case (Cons p ps)
  have a: "insert (title_key p) seen \<union> title_key ` set (keep_new (insert (title_key p) seen) ps)
           = insert (title_key p) seen \<union> title_key ` set ps"
    by (rule Cons.IH)
  have b: "seen \<union> title_key ` set (keep_new seen ps) = seen \<union> title_key ` set ps"
    by (rule Cons.IH)
  show ?case
  proof (cases "title_key p \<in> seen")
    case True
    with b show ?thesis by (simp add: insert_absorb)
  next
    case False
    with a show ?thesis by simp
  qed
qed

lemma keep_new_disjoint: "title_key ` set (keep_new seen ps) \<inter> seen = {}"
  by (induction ps arbitrary: seen) auto

lemma distinct_keep_new: "distinct (map title_key (keep_new seen ps))"
proof (induction ps arbitrary: seen)
  case Nil show ?case by simp
next
  case (Cons p ps)
  show ?case using keep_new_disjoint[of "insert (title_key p) seen" ps] Cons
    by auto
qed

lemma keep_new_idem: "keep_new seen (keep_new seen ps) = keep_new seen ps"
  by (induction ps arbitrary: seen) auto

lemma dict_set_fresh: "k \<notin> fst ` set d \<Longrightarrow> dict_set d k v = d @ [(k, v)]"
  by (induction d) auto

lemma dedup_groups_eq:
  "distinct (map fst d @ map fst gs) \<Longrightarrow>
   dedup_groups seen d gs = d @ keep_new_groups seen gs"
proof (induction gs arbitrary: seen d)
  case Nil show ?case by simp
next
  case (Cons g gs)
  obtain name ps where g: "g = (name, ps)" by (cases g)
  have fresh: "name \<notin> fst ` set d" using Cons.prems g by auto
  have "distinct (map fst (d @ [(name, keep_new seen ps)]) @ map fst gs)"
    using Cons.prems g by auto
  from Cons.IH[OF this] show ?case
    by (simp add: g dedup_papers_eq dict_set_fresh[OF fresh])
qed

lemma dedup_eq: "distinct (map fst g) \<Longrightarrow> deduplicate_grouped_entries g = keep_new_groups {} g"
  using dedup_groups_eq[of "[]" g "{}"] by (simp add: deduplicate_grouped_entries_def)

lemma keys_keep_new_groups: "map fst (keep_new_groups seen g) = map fst g"
  by (induction seen g rule: keep_new_groups.induct) auto

lemma flat_keep_new_groups:
  "concat (map snd (keep_new_groups seen g)) = keep_new seen (concat (map snd g))"
  by (induction seen g rule: keep_new_groups.induct) (auto simp: keep_new_append)

lemma keep_new_groups_idem:
  "keep_new_groups seen (keep_new_groups seen g) = keep_new_groups seen g"
  by (induction seen g rule: keep_new_groups.induct) (auto simp: keep_new_idem keys_keep_new)

lemma length_keep_new_groups: "length (keep_new_groups seen g) = length g"
  by (induction seen g rule: keep_new_groups.induct) auto

lemma nth_keep_new_groups:
  "i < length g \<Longrightarrow>
   keep_new_groups seen g ! i =
     (fst (g ! i), keep_new (seen \<union> title_key ` set (concat (map snd (take i g)))) (snd (g ! i)))"
proof (induction seen g arbitrary: i rule: keep_new_groups.induct)
  case (1 seen) then show ?case by simp
next
  case (2 seen name ps rest)
  show ?case
  proof (cases i)
    case 0 then show ?thesis by simp
  next
    case (Suc k)
    with 2 show ?thesis by (simp add: image_Un Un_assoc)
  qed
qed

lemma grouped_example_dedup:
  "deduplicate_grouped_entries grouped_example =
     [(''A'', [mk_paper ''Foo study'' ''foo'' ''A'',
              mk_paper ([CHR 0xC3, CHR 0x89] @ ''cole'') ''cole'' ''A'']),
      (''B'', []),
      (''C'', [mk_paper ''Bar result'' ''bar'' ''C''])]"
  by code_simp

text \<open>
  Claim C1. For every grouped result (a dict, so its group keys are distinct) the
  deduplicator returns the same group keys in the same order, groups left empty included;
  the flattened output is the stable first-occurrence filter on normalized titles of the
  flattened input, taken in group order and then discovery order; no normalized title
  occurs twice in the output; and each group keeps exactly those of its matches whose
  normalized title no earlier group and no earlier match of the same group has, so a title
  stays in the group that produced it first. The normalized title is trimmed: a title with
  whitespace characters added around it has the same normalized title. It is
  case-insensitive: two titles whose trimmed forms differ only in the case of their
  characters have the same normalized title.
\<close>

theorem dedup_first_occurrence_wins:
  assumes "distinct (map fst g)"
  shows "map fst (deduplicate_grouped_entries g) = map fst g \<and>
         concat (map snd (deduplicate_grouped_entries g)) = first_wins (concat (map snd g)) \<and>
         distinct (map (\<lambda>p. normalized_title (title p))
                     (concat (map snd (deduplicate_grouped_entries g)))) \<and>
         (\<forall>i<length g. snd (deduplicate_grouped_entries g ! i) =
              first_wins_after (concat (map snd (take i g))) (snd (g ! i))) \<and>
         (utf8_decode t' = ws1 @ utf8_decode t @ ws2 \<and>
          list_all py_isspace ws1 \<and> list_all py_isspace ws2 \<longrightarrow>
            normalized_title t' = normalized_title t) \<and>
         (list_all2 same_ignoring_case (utf8_decode (py_strip u')) (utf8_decode (py_strip u)) \<longrightarrow>
            normalized_title u' = normalized_title u)"
proof -
  have e: "deduplicate_grouped_entries g = keep_new_groups {} g"
    using assms by (rule dedup_eq)
  have k: "keep_new {} xs = first_wins xs" for xs
    using keep_new_index[of "[]" xs] by (simp add: first_wins_def)
  have n: "snd (keep_new_groups {} g ! i) =
             first_wins_after (concat (map snd (take i g))) (snd (g ! i))"
    if "i < length g" for i
  proof -
    have "snd (keep_new_groups {} g ! i) =
            keep_new (title_key ` set (concat (map snd (take i g)))) (snd (g ! i))"
      using that by (simp add: nth_keep_new_groups del: set_concat)
    then show ?thesis by (simp only: keep_new_index)
  qed
  have d: "distinct (map (\<lambda>p. normalized_title (title p)) (keep_new {} (concat (map snd g))))"
    using distinct_keep_new[of "{}" "concat (map snd g)"]
    by (simp add: title_key_normalized[abs_def])
  have t: "utf8_decode t' = ws1 @ utf8_decode t @ ws2 \<and>
           list_all py_isspace ws1 \<and> list_all py_isspace ws2 \<longrightarrow>
             normalized_title t' = normalized_title t"
    using normalized_title_trimmed by blast
  have c: "list_all2 same_ignoring_case (utf8_decode (py_strip u')) (utf8_decode (py_strip u)) \<longrightarrow>
             normalized_title u' = normalized_title u"
    using normalized_title_case by blast
  have "map fst (deduplicate_grouped_entries g) = map fst g \<and>
         concat (map snd (deduplicate_grouped_entries g)) = first_wins (concat (map snd g)) \<and>
         distinct (map (\<lambda>p. normalized_title (title p))
                     (concat (map snd (deduplicate_grouped_entries g)))) \<and>
         (\<forall>i<length g. snd (deduplicate_grouped_entries g ! i) =
              first_wins_after (concat (map snd (take i g))) (snd (g ! i)))"
    using d by (simp add: e keys_keep_new_groups flat_keep_new_groups k[symmetric] n)
  with t c show ?thesis by blast
qed

theorem dedup_first_occurrence_wins_witness:
  "distinct (map fst grouped_example) \<and>
   map fst (deduplicate_grouped_entries grouped_example) = map fst grouped_example \<and>
   concat (map snd (deduplicate_grouped_entries grouped_example)) =
     first_wins (concat (map snd grouped_example)) \<and>
   distinct (map (\<lambda>p. normalized_title (title p))
               (concat (map snd (deduplicate_grouped_entries grouped_example)))) \<and>
   snd (deduplicate_grouped_entries grouped_example ! 0) =
     first_wins_after (concat (map snd (take 0 grouped_example))) (snd (grouped_example ! 0)) \<and>
   snd (deduplicate_grouped_entries grouped_example ! 1) =
     first_wins_after (concat (map snd (take 1 grouped_example))) (snd (grouped_example ! 1)) \<and>
   snd (deduplicate_grouped_entries grouped_example ! 2) =
     first_wins_after (concat (map snd (take 2 grouped_example))) (snd (grouped_example ! 2)) \<and>
   utf8_decode ([CHR 0xC2, CHR 0xA0] @ ''foo study'' @ [CHR 0xE2, CHR 0x80, CHR 0x83]) =
     [0xA0] @ utf8_decode ''foo study'' @ [0x2003] \<and>
   list_all py_isspace [0xA0] \<and> list_all py_isspace [0x2003] \<and>
   normalized_title ([CHR 0xC2, CHR 0xA0] @ ''foo study'' @ [CHR 0xE2, CHR 0x80, CHR 0x83]) =
     normalized_title ''foo study'' \<and>
   list_all2 same_ignoring_case (utf8_decode (py_strip ([CHR 0xC3, CHR 0xA9] @ ''COLE'')))
     (utf8_decode (py_strip ([CHR 0xC3, CHR 0x89] @ ''cole''))) \<and>
   normalized_title ([CHR 0xC3, CHR 0xA9] @ ''COLE'') =
     normalized_title ([CHR 0xC3, CHR 0x89] @ ''cole'')"
proof -
  have h: "distinct (map fst grouped_example)"
    by (simp add: grouped_example_def)
  note w = dedup_first_occurrence_wins [OF h,
      of "[CHR 0xC2, CHR 0xA0] @ ''foo study'' @ [CHR 0xE2, CHR 0x80, CHR 0x83]"
         "[0xA0]" "''foo study''" "[0x2003]"
         "[CHR 0xC3, CHR 0xA9] @ ''COLE''" "[CHR 0xC3, CHR 0x89] @ ''cole''"]
  note q = w [THEN conjunct2, THEN conjunct2, THEN conjunct2, THEN conjunct1, rule_format]
  have l: "0 < length grouped_example" "1 < length grouped_example"
    "2 < length grouped_example"
    by (simp_all add: grouped_example_def)
  have t1: "utf8_decode ([CHR 0xC2, CHR 0xA0] @ ''foo study'' @ [CHR 0xE2, CHR 0x80, CHR 0x83]) =
     [0xA0] @ utf8_decode ''foo study'' @ [0x2003]"
    by code_simp
  have t2: "list_all py_isspace [0xA0]" "list_all py_isspace [0x2003]"
    by code_simp+
  have c1: "list_all2 same_ignoring_case (utf8_decode (py_strip ([CHR 0xC3, CHR 0xA9] @ ''COLE'')))
     (utf8_decode (py_strip ([CHR 0xC3, CHR 0x89] @ ''cole'')))"
    by code_simp
  show ?thesis
    using h w q [OF l(1)] q [OF l(2)] q [OF l(3)] t1 t2 c1 by blast
qed

text \<open>
  Claim C8. The deduplicator is idempotent: applied to its own output it returns that
  output unchanged.
\<close>

theorem dedup_idempotent:
  "distinct (map fst g) \<Longrightarrow>
   deduplicate_grouped_entries (deduplicate_grouped_entries g) = deduplicate_grouped_entries g"
proof -
  assume d: "distinct (map fst g)"
  then have e: "deduplicate_grouped_entries g = keep_new_groups {} g" by (rule dedup_eq)
  have "distinct (map fst (keep_new_groups {} g))" using d by (simp add: keys_keep_new_groups)
  then show ?thesis by (simp add: e dedup_eq keep_new_groups_idem)
qed

theorem dedup_idempotent_witness:
  "distinct (map fst grouped_example) \<and>
   deduplicate_grouped_entries (deduplicate_grouped_entries grouped_example) =
     deduplicate_grouped_entries grouped_example"
proof -
  have h: "distinct (map fst grouped_example)"
    by (simp add: grouped_example_def)
  show ?thesis
    by (rule conjI [OF h dedup_idempotent [OF h]])
qed

section \<open>The entry filter\<close>

lemma length_zero_pad: "length (zero_pad w n) = w"
  by (induction w arbitrary: n) auto

lemma py_str_less_append:
  "length xs = length ys \<Longrightarrow>
   py_str_less (xs @ us) (ys @ vs) = (py_str_less xs ys \<or> (xs = ys \<and> py_str_less us vs))"
proof (induction xs ys rule: list_induct2')
  case 1 show ?case by (cases us; cases vs) auto
next
  case (4 x xs y ys)
  then show ?case by auto
qed auto

lemma py_str_less_irrefl: "\<not> py_str_less xs xs"
  by (induction xs) auto

lemma of_char_digit: "n < 10 \<Longrightarrow> (of_char (digit_char n) :: nat) = 48 + n"
  by (simp add: digit_char_def)

lemma digit_char_inj: "a < 10 \<Longrightarrow> b < 10 \<Longrightarrow> digit_char a = digit_char b \<longleftrightarrow> a = b"
proof
  assume "a < 10" "b < 10" "digit_char a = digit_char b"
  then have "(of_char (digit_char a) :: nat) = of_char (digit_char b)" by simp
  with \<open>a < 10\<close> \<open>b < 10\<close> show "a = b" by (simp add: of_char_digit)
qed simp

lemma lex10:
  "ra < 10 \<Longrightarrow> rb < 10 \<Longrightarrow>
   ((10::nat) * qa + ra < 10 * qb + rb) = (qa < qb \<or> (qa = qb \<and> ra < rb))"
  by arith

lemma eq10:
  "ra < 10 \<Longrightarrow> rb < 10 \<Longrightarrow>
   ((10::nat) * qa + ra = 10 * qb + rb) = (qa = qb \<and> ra = rb)"
  by arith

lemma zero_pad_order:
  "a < 10 ^ w \<Longrightarrow> b < 10 ^ w \<Longrightarrow>
   (py_str_less (zero_pad w a) (zero_pad w b) \<longleftrightarrow> a < b) \<and>
   (zero_pad w a = zero_pad w b \<longleftrightarrow> a = b)"
proof (induction w arbitrary: a b)
  case 0
  then show ?case by simp
next
  case (Suc w)
  have da: "a div 10 < 10 ^ w" and db: "b div 10 < 10 ^ w"
    using Suc.prems by (simp_all add: less_mult_imp_div_less mult.commute)
  note ih = Suc.IH[OF da db]
  have ma: "a mod 10 < 10" and mb: "b mod 10 < 10" by simp_all
  have l: "length (zero_pad w (a div 10)) = length (zero_pad w (b div 10))"
    by (simp add: length_zero_pad)
  have lt: "a < b \<longleftrightarrow> a div 10 < b div 10 \<or> (a div 10 = b div 10 \<and> a mod 10 < b mod 10)"
    using lex10[OF ma mb, of "a div 10" "b div 10"] by simp
  have eq: "a = b \<longleftrightarrow> a div 10 = b div 10 \<and> a mod 10 = b mod 10"
    using eq10[OF ma mb, of "a div 10" "b div 10"] by simp
  show ?case
    using ih lt eq
    by (simp add: py_str_less_append[OF l] of_char_digit[OF ma] of_char_digit[OF mb]
        digit_char_inj[OF ma mb])
qed

lemma strftime_ymd_order:
  assumes "valid_date a" "valid_date b"
  shows "py_str_less (strftime_ymd a) (strftime_ymd b) \<longleftrightarrow> date_less a b"
proof -
  obtain y1 m1 d1 where a: "a = (y1, m1, d1)" by (cases a)
  obtain y2 m2 d2 where b: "b = (y2, m2, d2)" by (cases b)
  have y: "y1 < 10 ^ 4" "y2 < 10 ^ 4" and m: "m1 < 10 ^ 2" "m2 < 10 ^ 2"
    and d: "d1 < 10 ^ 2" "d2 < 10 ^ 2"
    using assms by (simp_all add: valid_date_def a b)
  note oy = zero_pad_order[OF y] and om = zero_pad_order[OF m] and od = zero_pad_order[OF d]
  have ly: "length (zero_pad 4 y1) = length (zero_pad 4 y2)" by (simp only: length_zero_pad)
  have lm: "length (zero_pad 2 m1) = length (zero_pad 2 m2)" by (simp only: length_zero_pad)
  have ld: "length (zero_pad 2 d1) = length (zero_pad 2 d2)" by (simp only: length_zero_pad)
  have dash: "\<And>us vs. py_str_less (''-'' @ us) (''-'' @ vs) = py_str_less us vs" by simp
  have "py_str_less (strftime_ymd a) (strftime_ymd b) \<longleftrightarrow>
        (py_str_less (zero_pad 4 y1) (zero_pad 4 y2) \<or>
          (zero_pad 4 y1 = zero_pad 4 y2 \<and>
            (py_str_less (zero_pad 2 m1) (zero_pad 2 m2) \<or>
              (zero_pad 2 m1 = zero_pad 2 m2 \<and> py_str_less (zero_pad 2 d1) (zero_pad 2 d2)))))"
    unfolding strftime_ymd_def a b prod.case
    using py_str_less_append[OF ly] py_str_less_append[OF lm] py_str_less_append[OF ld, of "[]" "[]"]
    by (simp only: dash)
  then show ?thesis
    using oy om od by (simp add: date_less_def a b)
qed

lemma search_entries_append:
  "search_entries cfg sd g kw matched (es1 @ es2) =
     (case search_entries cfg sd g kw matched es1 of
        Inl err \<Rightarrow> Inl err
      | Inr m \<Rightarrow> search_entries cfg sd g kw m es2)"
  by (induction es1 arbitrary: matched) (auto split: sum.splits option.splits)

lemma old_entry_string_level:
  "published e = Some pub \<Longrightarrow> py_str_less (split_T_first pub) sd \<Longrightarrow>
   match_entry cfg sd g kw e = Inr None"
  by (simp add: match_entry_def)

lemma entry_examples:
  "match_entry default_config ''2024-01-01'' ''A'' ''foo'' entry_foo =
     Inr (Some \<lparr> title = ''Foo study'', authors = ''A. Author, B. Writer'',
                  summary = ''We study foo.'', link = ''http://arxiv.org/abs/2401.00001v1'',
                  keyword = ''foo'', group' = ''A'' \<rparr>)"
  "match_entry default_config ''2024-01-01'' ''B'' ''bar'' entry_bar_old = Inr None"
  "match_entry default_config ''2024-01-01'' ''A'' ''foo'' entry_no_tags = Inr None"
  by code_simp+

text \<open>
  Claim C5. An entry whose published date (the date portion of its timestamp, in ISO form)
  is strictly before the cutoff date is excluded whatever the keyword, the title and the
  abstract are: the loop body appends nothing and raises nothing, and the search over a
  feed gives the same result with the entry and without it.
\<close>

theorem old_entry_excluded:
  assumes "valid_date d" "valid_date cutoff" "date_less d cutoff"
      and "published e = Some pub" "split_T_first pub = strftime_ymd d"
  shows "match_entry cfg (strftime_ymd cutoff) g kw e = Inr None \<and>
         search_entries cfg (strftime_ymd cutoff) g kw matched (es1 @ e # es2) =
           search_entries cfg (strftime_ymd cutoff) g kw matched (es1 @ es2)"
proof -
  have "py_str_less (split_T_first pub) (strftime_ymd cutoff)"
    using assms(1,2,3,5) by (simp add: strftime_ymd_order)
  with assms(4) have m: "match_entry cfg (strftime_ymd cutoff) g kw e = Inr None"
    by (rule old_entry_string_level)
  then show ?thesis
    by (simp add: search_entries_append split: sum.splits)
qed

theorem old_entry_excluded_witness:
  "valid_date (2023, 12, 30) \<and> valid_date (2024, 1, 1) \<and> date_less (2023, 12, 30) (2024, 1, 1) \<and>
   published entry_bar_old = Some ''2023-12-30T18:00:00Z'' \<and>
   split_T_first ''2023-12-30T18:00:00Z'' = strftime_ymd (2023, 12, 30) \<and>
   match_entry default_config (strftime_ymd (2024, 1, 1)) ''B'' ''bar'' entry_bar_old = Inr None \<and>
   search_entries default_config (strftime_ymd (2024, 1, 1)) ''B'' ''bar'' [] ([entry_foo] @ entry_bar_old # []) =
     search_entries default_config (strftime_ymd (2024, 1, 1)) ''B'' ''bar'' [] ([entry_foo] @ [])"
proof -
  have h1: "valid_date (2023, 12, 30)" by (simp add: valid_date_def)
  have h2: "valid_date (2024, 1, 1)" by (simp add: valid_date_def)
  have h3: "date_less (2023, 12, 30) (2024, 1, 1)" by (simp add: date_less_def)
  have h4: "published entry_bar_old = Some ''2023-12-30T18:00:00Z''"
    by (simp add: entry_bar_old_def)
  have h5: "split_T_first ''2023-12-30T18:00:00Z'' = strftime_ymd (2023, 12, 30)"
    by code_simp
  show ?thesis
    using h1 h2 h3 h4 h5 old_entry_excluded [OF h1 h2 h3 h4 h5] by blast
qed

lemma match_entry_tags_irrelevant:
  "\<not> STRICT_CATEGORY_MODE cfg \<Longrightarrow>
   match_entry cfg sd g kw (e\<lparr>tags := t\<rparr>) = match_entry cfg sd g kw e"
  by (simp add: match_entry_def is_category_allowed_def cong: option.case_cong if_cong sum.case_cong)

text \<open>
  Claim C9. With strict-category mode off the category check passes for every entry, and
  the category tags never exclude an entry: the search gives the same result whatever tags
  the entries of the feed carry.
\<close>

theorem no_strict_mode_tags_never_exclude:
  assumes "\<not> STRICT_CATEGORY_MODE cfg"
  shows "is_category_allowed cfg e \<and>
         search_entries cfg sd g kw matched (map (\<lambda>e. e\<lparr>tags := retag e\<rparr>) es) =
           search_entries cfg sd g kw matched es"
proof -
  have a: "is_category_allowed cfg e" using assms by (simp add: is_category_allowed_def)
  have b: "search_entries cfg sd g kw matched (map (\<lambda>e. e\<lparr>tags := retag e\<rparr>) es) =
           search_entries cfg sd g kw matched es"
  proof (induction es arbitrary: matched)
    case Nil show ?case by simp
  next
    case (Cons x xs)
    show ?case
      by (simp add: match_entry_tags_irrelevant[OF assms] Cons split: sum.splits option.splits)
  qed
  from a b show ?thesis by simp
qed

theorem no_strict_mode_tags_never_exclude_witness:
  "\<not> STRICT_CATEGORY_MODE (default_config \<lparr> STRICT_CATEGORY_MODE := False \<rparr>) \<and>
   is_category_allowed (default_config \<lparr> STRICT_CATEGORY_MODE := False \<rparr>) entry_no_tags \<and>
   search_entries (default_config \<lparr> STRICT_CATEGORY_MODE := False \<rparr>) ''2024-01-01'' ''A''
       ''foo'' [] (map (\<lambda>e. e\<lparr>tags := None\<rparr>) [entry_foo, entry_bar_old]) =
     search_entries (default_config \<lparr> STRICT_CATEGORY_MODE := False \<rparr>) ''2024-01-01'' ''A''
       ''foo'' [] [entry_foo, entry_bar_old]"
proof -
  have h: "\<not> STRICT_CATEGORY_MODE (default_config \<lparr> STRICT_CATEGORY_MODE := False \<rparr>)"
    by simp
  show ?thesis
    by (rule conjI [OF h no_strict_mode_tags_never_exclude [OF h]])
qed

lemma tag_terms_unusable:
  "list_all (\<lambda>t. case t of TagDict d \<Rightarrow> map_of d ''term'' = None
                                | TagStr s \<Rightarrow> False
                                | TagOther \<Rightarrow> True) ts \<Longrightarrow> tag_terms cats ts = cats"
  by (induction cats ts rule: tag_terms.induct) auto

lemma unusable_not_allowed:
  "STRICT_CATEGORY_MODE cfg \<Longrightarrow> tags_unusable e \<Longrightarrow> \<not> is_category_allowed cfg e"
  by (auto simp: is_category_allowed_def tags_unusable_def tag_terms_unusable list_ex_iff
      split: option.splits)

section \<open>The digest formatter\<close>





















section \<open>The search, the mailer and the main flow\<close>

lemma search_keywords_fetches:
  "search_keywords cfg w sd g tr m kws = (tr', r) \<Longrightarrow>
   \<exists>k \<le> length kws. tr' = tr @ map (Fetch \<circ> query_url cfg) (take k kws) \<and>
      ((\<exists>m'. r = Inr m') \<longrightarrow> k = length kws)"
proof (induction kws arbitrary: tr m)
  case Nil
  then show ?case by auto
next
  case (Cons kw kws)
  show ?case
  proof (cases "search_entries cfg sd g kw m (feed w (query_url cfg kw))")
    case (Inl err)
    with Cons.prems have "tr' = tr @ [Fetch (query_url cfg kw)]" "r = Inl err"
      by (simp_all add: Let_def)
    then show ?thesis by (intro exI[of _ 1]) simp
  next
    case (Inr m')
    with Cons.prems have
      "search_keywords cfg w sd g (tr @ [Fetch (query_url cfg kw)]) m' kws = (tr', r)"
      by (simp add: Let_def)
    from Cons.IH[OF this] obtain k where
      k: "k \<le> length kws" "tr' = (tr @ [Fetch (query_url cfg kw)]) @ map (Fetch \<circ> query_url cfg) (take k kws)"
         "(\<exists>m'. r = Inr m') \<longrightarrow> k = length kws" by blast
    then show ?thesis by (intro exI[of _ "Suc k"]) simp
  qed
qed

lemma search_all_fetches:
  "search_all cfg w tr acc n gs = (tr', r) \<Longrightarrow>
   \<exists>k. tr' = tr @ map (Fetch \<circ> query_url cfg) (take k (concat (map snd gs))) \<and>
      ((\<exists>x. r = Inr x) \<longrightarrow> tr' = tr @ map (Fetch \<circ> query_url cfg) (concat (map snd gs)))"
proof (induction gs arbitrary: tr acc n)
  case Nil
  then show ?case by auto
next
  case (Cons a gs)
  obtain g kws where a: "a = (g, kws)" by (cases a)
  obtain tr1 r1 where s: "search_group cfg w tr g kws = (tr1, r1)" by (cases "search_group cfg w tr g kws")
  from search_keywords_fetches[OF s[unfolded search_group_def]] obtain k where
    k: "k \<le> length kws" "tr1 = tr @ map (Fetch \<circ> query_url cfg) (take k kws)"
       "(\<exists>m'. r1 = Inr m') \<longrightarrow> k = length kws" by blast
  show ?case
  proof (cases r1)
    case (Inl err)
    with Cons.prems s a have "tr' = tr1" "r = Inl err" by simp_all
    with k show ?thesis by (intro exI[of _ k]) (simp add: a)
  next
    case (Inr results)
    with k have tr1: "tr1 = tr @ map (Fetch \<circ> query_url cfg) kws" by simp
    from Inr Cons.prems s a have
      "search_all cfg w tr1 (dict_set acc g results) (if results \<noteq> [] then n + 1 else n) gs = (tr', r)"
      by simp
    from Cons.IH[OF this] obtain j where
      j: "tr' = tr1 @ map (Fetch \<circ> query_url cfg) (take j (concat (map snd gs)))"
         "(\<exists>x. r = Inr x) \<longrightarrow> tr' = tr1 @ map (Fetch \<circ> query_url cfg) (concat (map snd gs))"
      by blast
    show ?thesis
      using j tr1 by (intro exI[of _ "length kws + j"]) (simp add: a)
  qed
qed

lemma search_all_groups:
  "search_all cfg w tr acc n gs = (tr', Inr (g', n')) \<Longrightarrow>
   distinct (map fst acc @ map fst gs) \<Longrightarrow>
   \<exists>new. g' = acc @ new \<and> map fst new = map fst gs \<and> n' = n + groups_with_matches new"
proof (induction gs arbitrary: tr acc n)
  case Nil
  then show ?case by (simp add: groups_with_matches_def)
next
  case (Cons a gs)
  obtain g kws where a: "a = (g, kws)" by (cases a)
  obtain tr1 r1 where s: "search_group cfg w tr g kws = (tr1, r1)" by (cases "search_group cfg w tr g kws")
  from Cons.prems(1) s a obtain results where r1: "r1 = Inr results"
    by (cases r1) simp_all
  have fresh: "g \<notin> fst ` set acc" using Cons.prems(2) a by auto
  have step: "search_all cfg w tr1 (acc @ [(g, results)]) (if results \<noteq> [] then n + 1 else n) gs
                = (tr', Inr (g', n'))"
    using Cons.prems(1) s a r1 by (simp add: dict_set_fresh[OF fresh])
  have d: "distinct (map fst (acc @ [(g, results)]) @ map fst gs)"
    using Cons.prems(2) a by auto
  from Cons.IH[OF step d] obtain new where
    new: "g' = (acc @ [(g, results)]) @ new" "map fst new = map fst gs"
         "n' = (if results \<noteq> [] then n + 1 else n) + groups_with_matches new" by blast
  show ?case
    using new by (intro exI[of _ "(g, results) # new"]) (simp add: a groups_with_matches_def)
qed

lemma smtp_session_trace:
  "fst (smtp_session rl tr calls) =
     tr @ map snd (take (Suc (length (takeWhile (\<lambda>(s, e). rl s) calls))) calls)"
  by (induction rl tr calls rule: smtp_session.induct) auto

lemma smtp_session_result:
  "snd (smtp_session rl tr calls) =
     (case find (\<lambda>s. \<not> rl s) (map fst calls) of
        None \<Rightarrow> Inr ()
      | Some s \<Rightarrow> Inl (SMTPError s))"
  by (induction rl tr calls rule: smtp_session.induct) auto

lemma filter_take_le: "length (filter P (take k xs)) \<le> length (filter P xs)"
proof -
  have "length (filter P xs) = length (filter P (take k xs)) + length (filter P (drop k xs))"
    by (metis append_take_drop_id filter_append length_append)
  then show ?thesis by simp
qed

lemma filter_fetches:
  assumes "\<And>x. \<not> P (Fetch x)"
  shows "filter P (map (Fetch \<circ> f) xs) = []"
  using assms by (induction xs) auto

lemma send_email_result:
  "snd (send_email cfg ev w tr subject body) =
     (case find (\<lambda>s. \<not> call_returns cfg ev w s) smtp_steps of
        None \<Rightarrow> Inr ()
      | Some s \<Rightarrow> Inl (SMTPError s))"
  by (simp add: send_email_def Let_def smtp_session_result smtp_steps_def smtp_calls_def)

lemma send_email_counts:
  assumes "\<And>x. \<not> P (Fetch x)"
    and "\<And>msg. length (filter P (map snd (smtp_calls cfg ev msg))) \<le> 1"
  shows "length (filter P (fst (send_email cfg ev w (map (Fetch \<circ> f) xs) subject body))) \<le> 1"
proof -
  define msg where "msg = \<lparr> msg_subject = subject, msg_from = SENDER_EMAIL ev,
      msg_to = py_join '', '' (RECEIVER_EMAILS cfg), msg_body = body \<rparr>"
  define k where
    "k = Suc (length (takeWhile (\<lambda>(s, e). call_returns cfg ev w s) (smtp_calls cfg ev msg)))"
  have "fst (send_email cfg ev w (map (Fetch \<circ> f) xs) subject body) =
          map (Fetch \<circ> f) xs @ map snd (take k (smtp_calls cfg ev msg))"
    unfolding send_email_def Let_def msg_def[symmetric] k_def by (rule smtp_session_trace)
  then have "length (filter P (fst (send_email cfg ev w (map (Fetch \<circ> f) xs) subject body))) =
          length (filter P (take k (map snd (smtp_calls cfg ev msg))))"
    by (simp only: filter_append filter_fetches[of P, OF assms(1)] append_Nil take_map)
  also have "\<dots> \<le> length (filter P (map snd (smtp_calls cfg ev msg)))"
    by (rule filter_take_le)
  also have "\<dots> \<le> 1" by (rule assms(2))
  finally show ?thesis .
qed

lemma main_counts:
  assumes "\<And>x. \<not> P (Fetch x)"
    and "\<And>msg. length (filter P (map snd (smtp_calls cfg ev msg))) \<le> 1"
  shows "length (filter P (fst (main cfg ev w))) \<le> 1"
proof -
  obtain tr r where s: "search_all cfg w [] [] 0 (KEYWORD_GROUPS cfg) = (tr, r)"
    by (cases "search_all cfg w [] [] 0 (KEYWORD_GROUPS cfg)")
  from search_all_fetches[OF s] obtain k where
    k: "tr = map (Fetch \<circ> query_url cfg) (take k (concat (map snd (KEYWORD_GROUPS cfg))))"
    by auto
  show ?thesis
  proof (cases r)
    case (Inl err)
    then have "fst (main cfg ev w) = tr" using s by (simp add: main_def)
    then show ?thesis by (simp only: k filter_fetches[of P, OF assms(1)]) simp
  next
    case (Inr x)
    obtain g n where x: "x = (g, n)" by (cases x)
    have "main cfg ev w = send_email cfg ev w tr (subject_line (today_str w) n)
            (format_digest cfg (deduplicate_grouped_entries g))"
      using s Inr x by (simp add: main_def Let_def)
    then show ?thesis
      unfolding k using send_email_counts[of P cfg ev, OF assms] by simp
  qed
qed

lemma keyword_groups_default:
  "KEYWORD_GROUPS default_config = [
       (''Integrated Photonic Materials'',
          [''SiN'', ''silicon nitride'', ''AlN'', ''aluminum nitride'',
           ''TFLN'', ''thin-film lithium niobate'',
           ''BTO'', ''barium titanate'',
           ''thin-film lithium tantalate'', ''lithium tantalate'',
           ''heterogeneous integration'']),
       (''Nonlinear & EO Devices'',
          [''nonlinear frequency conversion'', ''electro-optic modulator'',
           ''on-chip comb'',
           ''acousto-optic'', ''acousto-optic modulator'',
           ''optical nonreciprocity'', ''nonreciprocal optics'']),
       (''Multimodal Imaging & ML'',
          [''microsphere imaging'', ''endomicroscopy'',
           ''photonic neural network'', ''on-chip machine learning'',
           ''optical computing'']),
       (''Quantum Optics & Photonics'',
          [''single photon'', ''quantum source'',
           ''entangled photons'', ''quantum interference'', ''quantum memory'']),
       (''Microwave-to-Optical & Synthetic Dimensions'',
          [''microwave-to-optical transducer'', ''microwave to optical conversion'',
           ''optomechanical interface'', ''electromechanical interface'',
           ''optical synthetic dimension'', ''synthetic frequency dimension'',
           ''synthetic photonics'']),
       (''Core Topics (LNOI, Quantum etc)'',
          [''LNOI'', ''lithium niobate'', ''LiNbO3'', ''SPDC'', ''electro-optic'',
           ''super-resolution imaging'', ''optical fiber endoscope''])]"
  by (simp add: default_config_def)

lemma tfln_hits:
  "map (\<lambda>kw. keyword_matched ''Thin-film lithium niobate modulators'' kw \<or>
              keyword_matched ''We report a modulator.'' kw)
       (concat (map snd (KEYWORD_GROUPS default_config))) =
   [False, False, False, False, False, True, False, False, False, False, False,
    False, False, False, False, False, False, False,
    False, False, False, False, False,
    False, False, False, False, False,
    False, False, False, False, False, False, False,
    False, True, False, False, False, False, False]"
  by code_simp

lemma tfln_entry:
  "search_entries default_config ''2024-01-01'' g kw m [entry_tfln] =
     Inr (if keyword_matched ''Thin-film lithium niobate modulators'' kw \<or>
              keyword_matched ''We report a modulator.'' kw
          then m @ [paper_tfln kw g] else m)"
proof -
  have a: "is_category_allowed default_config entry_tfln" by code_simp
  have b: "\<not> py_str_less (split_T_first ''2024-01-03T11:00:00Z'') ''2024-01-01''" by code_simp
  have c: "py_replace_nl (py_strip ''Thin-film lithium niobate modulators'') = ''Thin-film lithium niobate modulators''"
    by code_simp
  have d: "py_replace_nl (py_strip ''We report a modulator.'') = ''We report a modulator.''"
    by code_simp
  have e: "published entry_tfln = Some ''2024-01-03T11:00:00Z''"
     "e_title entry_tfln = Some ''Thin-film lithium niobate modulators''"
     "e_summary entry_tfln = Some ''We report a modulator.''"
     "e_authors entry_tfln = Some [Some ''A. Author'']"
     "e_link entry_tfln = Some ''http://arxiv.org/abs/2401.00002v1''"
    by (simp_all add: entry_tfln_def)
  show ?thesis
    by (simp add: match_entry_def a b c d e paper_tfln_def Let_def)
qed

lemmas tfln_hit_facts = tfln_hits [unfolded keyword_groups_default, simplified]

lemma search_all_same_entry:
  "snd (search_all default_config world_same_entry [] [] 0 (KEYWORD_GROUPS default_config)) =
     Inr (all_grouped_tfln, 2)"
proof -
  have f: "\<And>url. feed world_same_entry url = [entry_tfln]"
    by (simp add: world_same_entry_def)
  have s: "\<And>g. get_start_date_str world_same_entry g = ''2024-01-01''"
    by (simp add: world_same_entry_def world_quiet_def)
  show ?thesis
    by (simp add: keyword_groups_default search_group_def Let_def f s tfln_entry
        tfln_hit_facts all_grouped_tfln_def del: search_entries.simps)
qed

lemma sent_subjects_append: "sent_subjects (xs @ ys) = sent_subjects xs @ sent_subjects ys"
  by (simp add: sent_subjects_def)

lemma sent_subjects_fetches: "sent_subjects (map (Fetch \<circ> f) xs) = []"
  by (induction xs) (simp_all add: sent_subjects_def)

lemma smtp_session_all_ok:
  "(\<And>s. rl s) \<Longrightarrow> smtp_session rl tr calls = (tr @ map snd calls, Inr ())"
  by (induction rl tr calls rule: smtp_session.induct) auto

lemma search_keywords_quiet:
  "(\<And>url. feed w url = []) \<Longrightarrow>
   search_keywords cfg w sd g tr m kws = (tr @ map (Fetch \<circ> query_url cfg) kws, Inr m)"
  by (induction kws arbitrary: tr) (simp_all add: Let_def)

lemma search_all_quiet:
  "(\<And>url. feed w url = []) \<Longrightarrow>
   search_all cfg w tr acc n gs =
     (tr @ map (Fetch \<circ> query_url cfg) (concat (map snd gs)),
      Inr (fold (\<lambda>(g, kws) d. dict_set d g []) gs acc, n))"
  by (induction gs arbitrary: tr acc) (auto simp: search_group_def search_keywords_quiet)

lemma search_all_same_entry_full:
  "search_all default_config world_same_entry [] [] 0 (KEYWORD_GROUPS default_config) =
     (map (Fetch \<circ> query_url default_config) (concat (map snd (KEYWORD_GROUPS default_config))),
      Inr (all_grouped_tfln, 2))"
proof -
  obtain tr r where s: "search_all default_config world_same_entry [] [] 0 (KEYWORD_GROUPS default_config) = (tr, r)"
    by (cases "search_all default_config world_same_entry [] [] 0 (KEYWORD_GROUPS default_config)")
  with search_all_same_entry have r: "r = Inr (all_grouped_tfln, 2)" by simp
  with search_all_fetches[OF s] have "tr = map (Fetch \<circ> query_url default_config) (concat (map snd (KEYWORD_GROUPS default_config)))"
    by simp
  with s r show ?thesis by simp
qed

lemma call_returns_quiet:
  "relay w = (\<lambda>step. True) \<Longrightarrow>
   length (refused_recipients cfg w) \<noteq> length (RECEIVER_EMAILS cfg) \<Longrightarrow>
   SENDER_EMAIL ev \<noteq> None \<Longrightarrow>
   call_returns cfg ev w step"
  by (simp add: call_returns_def)

text \<open>
  Claim C4 at a failing input. On the configuration of the source, with a relay that
  refuses one of the two recipients and accepts the other, \<open>sendmail\<close> returns the refused
  address in its result instead of raising; the script drops the result and the run ends
  with success, although the digest did not reach that recipient: a failure during send
  that is not fatal.
\<close>

theorem partial_refusal_counterexample:
  "refused_recipients default_config world_one_refused = [''mobius3516@gmail.com''] \<and>
   RECEIVER_EMAILS default_config = [''foggymature@gmail.com'', ''mobius3516@gmail.com''] \<and>
   snd (main default_config env_example world_one_refused) = Inr ()"
proof -
  have a: "refused_recipients default_config world_one_refused = [''mobius3516@gmail.com'']"
    by (simp add: refused_recipients_def world_one_refused_def default_config_def)
  have b: "RECEIVER_EMAILS default_config = [''foggymature@gmail.com'', ''mobius3516@gmail.com'']"
    by (simp add: default_config_def)
  have f: "\<And>url. feed world_one_refused url = []"
    by (simp add: world_one_refused_def world_quiet_def)
  have r: "relay world_one_refused = (\<lambda>step. True)"
    by (simp add: world_one_refused_def world_quiet_def)
  have c: "\<And>step. call_returns default_config env_example world_one_refused step"
    by (rule call_returns_quiet [OF r]) (simp_all add: a b env_example_def)
  have "snd (main default_config env_example world_one_refused) = Inr ()"
    by (simp add: main_def search_all_quiet [of world_one_refused, OF f] Let_def send_email_def
        smtp_session_all_ok [of "call_returns default_config env_example world_one_refused", OF c])
  with a b show ?thesis by simp
qed

text \<open>
  The failures that the mail session raises are fatal. When a call of the session raises
  (connect, the greetings, the TLS upgrade, login, send or quit; \<open>sendmail\<close> raises when
  the relay refuses the sender, the data or every recipient), \<open>send_email\<close> returns the
  exception of the first call that raises, so the run ends with an exception and never
  with success; and a run makes at most one connect, one login and one send call: nothing
  is retried.
\<close>

theorem mail_failure_is_fatal:
  assumes "\<not> call_returns cfg ev w step"
  shows "(\<exists>s. find (\<lambda>s. \<not> call_returns cfg ev w s) smtp_steps = Some s \<and>
              snd (send_email cfg ev w tr subject body) = Inl (SMTPError s)) \<and>
         (\<exists>err. snd (main cfg ev w) = Inl err) \<and>
         length (filter is_connect (fst (main cfg ev w))) \<le> 1 \<and>
         length (filter is_login (fst (main cfg ev w))) \<le> 1 \<and>
         length (filter is_sendmail (fst (main cfg ev w))) \<le> 1"
proof -
  have "step \<in> set smtp_steps" by (cases step) (simp_all add: smtp_steps_def)
  with assms obtain s where f: "find (\<lambda>s. \<not> call_returns cfg ev w s) smtp_steps = Some s"
    by (cases "find (\<lambda>s. \<not> call_returns cfg ev w s) smtp_steps") (auto simp: find_None_iff)
  then have se: "\<And>tr subject body. snd (send_email cfg ev w tr subject body) = Inl (SMTPError s)"
    by (simp add: send_email_result)
  have m: "\<exists>err. snd (main cfg ev w) = Inl err"
  proof -
    obtain tr0 r where s0: "search_all cfg w [] [] 0 (KEYWORD_GROUPS cfg) = (tr0, r)"
      by (cases "search_all cfg w [] [] 0 (KEYWORD_GROUPS cfg)")
    show ?thesis
    proof (cases r)
      case (Inl err)
      then show ?thesis using s0 by (simp add: main_def)
    next
      case (Inr x)
      obtain g n where x: "x = (g, n)" by (cases x)
      show ?thesis using s0 Inr x se by (simp add: main_def Let_def)
    qed
  qed
  have c1: "length (filter is_connect (fst (main cfg ev w))) \<le> 1"
    by (rule main_counts) (simp_all add: smtp_calls_def)
  have c2: "length (filter is_login (fst (main cfg ev w))) \<le> 1"
    by (rule main_counts) (simp_all add: smtp_calls_def)
  have c3: "length (filter is_sendmail (fst (main cfg ev w))) \<le> 1"
    by (rule main_counts) (simp_all add: smtp_calls_def)
  from f se m c1 c2 c3 show ?thesis by simp
qed

theorem mail_failure_is_fatal_witness:
  "\<not> call_returns default_config env_example world_login_rejected Login \<and>
   (\<exists>s. find (\<lambda>s. \<not> call_returns default_config env_example world_login_rejected s) smtp_steps =
          Some s \<and>
        snd (send_email default_config env_example world_login_rejected [] ''subject'' ''body'') =
          Inl (SMTPError s)) \<and>
   (\<exists>err. snd (main default_config env_example world_login_rejected) = Inl err) \<and>
   length (filter is_connect (fst (main default_config env_example world_login_rejected))) \<le> 1 \<and>
   length (filter is_login (fst (main default_config env_example world_login_rejected))) \<le> 1 \<and>
   length (filter is_sendmail (fst (main default_config env_example world_login_rejected))) \<le> 1"
proof -
  have h: "\<not> call_returns default_config env_example world_login_rejected Login"
    by (simp add: call_returns_def world_login_rejected_def)
  show ?thesis
    by (rule conjI [OF h mail_failure_is_fatal [OF h]])
qed

text \<open>
  Claim C2, as stated, fails. On the configuration of the source, with a feed that answers
  every query with one entry titled "Thin-film lithium niobate modulators", two groups have
  a match after the search and one group has a match after deduplication; the subject of
  the message sent says 2, not the count after deduplication.
\<close>

theorem subject_count_after_dedup_counterexample:
  "snd (search_all default_config world_same_entry [] [] 0 (KEYWORD_GROUPS default_config)) =
     Inr (all_grouped_tfln, 2) \<and>
   groups_with_matches all_grouped_tfln = 2 \<and>
   groups_with_matches (deduplicate_grouped_entries all_grouped_tfln) = 1 \<and>
   sent_subjects (fst (main default_config env_example world_same_entry)) =
     [subject_line ''2024-01-06'' 2] \<and>
   subject_line ''2024-01-06'' 2 \<noteq> subject_line ''2024-01-06'' 1 \<and>
   sent_subjects (fst (main default_config env_example world_same_entry)) \<noteq>
     [subject_line (today_str world_same_entry)
        (groups_with_matches (deduplicate_grouped_entries all_grouped_tfln))]"
proof -
  have a: "groups_with_matches all_grouped_tfln = 2" by code_simp
  have b: "groups_with_matches (deduplicate_grouped_entries all_grouped_tfln) = 1" by code_simp
  have r: "\<And>s. call_returns default_config env_example world_same_entry s"
    by (rule call_returns_quiet)
       (simp_all add: world_same_entry_def world_quiet_def refused_recipients_def
          default_config_def env_example_def)
  have t: "today_str world_same_entry = ''2024-01-06''"
    by (simp add: world_same_entry_def world_quiet_def)
  have c: "sent_subjects (fst (main default_config env_example world_same_entry)) =
     [subject_line ''2024-01-06'' 2]"
    by (simp add: main_def search_all_same_entry_full Let_def send_email_def
        smtp_session_all_ok[of "call_returns default_config env_example world_same_entry", OF r]
        sent_subjects_append
        sent_subjects_fetches t)
       (simp add: smtp_calls_def sent_subjects_def)
  have d: "subject_line ''2024-01-06'' 2 \<noteq> subject_line ''2024-01-06'' 1" by code_simp
  from search_all_same_entry a b c d show ?thesis by (simp add: t)
qed

text \<open>
  Claim C2, amended. The subject line embeds the run date and the number of groups for
  which the search returned at least one match, counted before deduplication: when the
  search ends without an exception, the counter equals the number of non-empty groups of
  \<open>all_grouped\<close>, and the run is \<open>send_email\<close> called with the subject made of the
  date and that number and with the body formatted from the deduplicated groups.
\<close>

theorem subject_counts_groups_before_dedup:
  assumes "distinct (map fst (KEYWORD_GROUPS cfg))"
      and "search_all cfg w [] [] 0 (KEYWORD_GROUPS cfg) = (tr, Inr (all_grouped, n))"
  shows "n = groups_with_matches all_grouped \<and>
         map fst all_grouped = map fst (KEYWORD_GROUPS cfg) \<and>
         main cfg ev w =
           send_email cfg ev w tr
             ([CHR 0xF0, CHR 0x9F, CHR 0x93, CHR 0xAC] @ '' arXiv Digest '' @ [CHR 0xE2, CHR 0x80, CHR 0x93]
                @ '' '' @ today_str w @ '' | '' @ str_nat (groups_with_matches all_grouped)
                @ '' Groups Matched'')
             (format_digest cfg (deduplicate_grouped_entries all_grouped))"
proof -
  from search_all_groups[OF assms(2)] assms(1) obtain new where
    new: "all_grouped = [] @ new" "map fst new = map fst (KEYWORD_GROUPS cfg)"
         "n = 0 + groups_with_matches new" by auto
  then have n: "n = groups_with_matches all_grouped" and k: "map fst all_grouped = map fst (KEYWORD_GROUPS cfg)"
    by simp_all
  have "main cfg ev w = send_email cfg ev w tr (subject_line (today_str w) n)
            (format_digest cfg (deduplicate_grouped_entries all_grouped))"
    using assms(2) by (simp add: main_def Let_def)
  then show ?thesis using n k by (simp add: subject_line_def)
qed

theorem subject_counts_groups_before_dedup_witness:
  "distinct (map fst (KEYWORD_GROUPS default_config)) \<and>
   search_all default_config world_same_entry [] [] 0 (KEYWORD_GROUPS default_config) =
     (map (Fetch \<circ> query_url default_config) (concat (map snd (KEYWORD_GROUPS default_config))),
      Inr (all_grouped_tfln, 2)) \<and>
   2 = groups_with_matches all_grouped_tfln \<and>
   map fst all_grouped_tfln = map fst (KEYWORD_GROUPS default_config) \<and>
   main default_config env_example world_same_entry =
     send_email default_config env_example world_same_entry
       (map (Fetch \<circ> query_url default_config) (concat (map snd (KEYWORD_GROUPS default_config))))
       ([CHR 0xF0, CHR 0x9F, CHR 0x93, CHR 0xAC] @ '' arXiv Digest '' @ [CHR 0xE2, CHR 0x80, CHR 0x93]
          @ '' '' @ today_str world_same_entry @ '' | ''
          @ str_nat (groups_with_matches all_grouped_tfln) @ '' Groups Matched'')
       (format_digest default_config (deduplicate_grouped_entries all_grouped_tfln))"
proof -
  have h1: "distinct (map fst (KEYWORD_GROUPS default_config))"
    by (simp add: keyword_groups_default)
  note h2 = search_all_same_entry_full
  show ?thesis
    using h1 h2 subject_counts_groups_before_dedup [OF h1 h2, of env_example] by blast
qed

text \<open>
  Claim C3, as stated, fails. With both secrets absent and a relay that rejects the login,
  the run on the configuration of the source makes all 42 feed requests, connects to the
  relay, upgrades the connection and calls login with the absent values; only then does it
  fail.
\<close>

theorem missing_secrets_counterexample:
  "SENDER_EMAIL no_secrets = None \<and> SENDER_PASSWORD no_secrets = None \<and>
   main default_config no_secrets world_login_rejected =
     (map (Fetch \<circ> query_url default_config) (concat (map snd (KEYWORD_GROUPS default_config)))
        @ [SmtpConnect ''smtp.gmail.com'' 587, SmtpEhlo, SmtpStartTLS, SmtpEhlo, SmtpLogin None None],
      Inl (SMTPError Login)) \<and>
   length (concat (map snd (KEYWORD_GROUPS default_config))) = 42"
proof -
  have f: "\<And>url. feed world_login_rejected url = []"
    by (simp add: world_login_rejected_def world_quiet_def)
  have r: "call_returns default_config no_secrets world_login_rejected =
             (\<lambda>step. step \<noteq> Login \<and> step \<noteq> Sendmail)"
    by (rule ext)
       (simp add: call_returns_def world_login_rejected_def world_quiet_def no_secrets_def)
  have m: "main default_config no_secrets world_login_rejected =
     (map (Fetch \<circ> query_url default_config) (concat (map snd (KEYWORD_GROUPS default_config)))
        @ [SmtpConnect ''smtp.gmail.com'' 587, SmtpEhlo, SmtpStartTLS, SmtpEhlo, SmtpLogin None None],
      Inl (SMTPError Login))"
    by (simp add: main_def search_all_quiet[of world_login_rejected, OF f] Let_def send_email_def
        smtp_calls_def r [unfolded no_secrets_def] no_secrets_def)
  have l: "length (concat (map snd (KEYWORD_GROUPS default_config))) = 42"
    by (simp add: keyword_groups_default)
  from m l show ?thesis by (simp add: no_secrets_def)
qed

text \<open>
  Claim C3, amended. The script does not check the secrets at startup. With a secret
  absent, a run whose search ends without an exception has made every feed request, one
  per keyword in the order of the configuration, and then opens the connection to the
  relay; when the calls before it return, login is called with the absent value. The run
  fails only when a call raises: it ends with the exception of the first call of the mail
  session that raises, and with success when none does. With the sender address absent
  a call does raise, \<open>sendmail\<close> at the latest, so that run never ends with success.
\<close>

theorem secrets_not_checked_at_startup:
  assumes "SENDER_EMAIL ev = None \<or> SENDER_PASSWORD ev = None"
      and "search_all cfg w [] [] 0 (KEYWORD_GROUPS cfg) = (tr, Inr r)"
  shows "tr = map (Fetch \<circ> query_url cfg) (concat (map snd (KEYWORD_GROUPS cfg))) \<and>
         (\<exists>rest. fst (main cfg ev w) = tr @ SmtpConnect ''smtp.gmail.com'' 587 # rest) \<and>
         (relay w Connect \<and> relay w Ehlo1 \<and> relay w StartTLS \<and> relay w Ehlo2 \<longrightarrow>
            SmtpLogin (SENDER_EMAIL ev) (SENDER_PASSWORD ev) \<in> set (fst (main cfg ev w))) \<and>
         snd (main cfg ev w) =
           (case find (\<lambda>s. \<not> call_returns cfg ev w s) smtp_steps of
              None \<Rightarrow> Inr ()
            | Some s \<Rightarrow> Inl (SMTPError s)) \<and>
         (snd (main cfg ev w) = Inr ()) = list_all (call_returns cfg ev w) smtp_steps \<and>
         (SENDER_EMAIL ev = None \<longrightarrow> (\<exists>err. snd (main cfg ev w) = Inl err))"
proof -
  have t: "tr = map (Fetch \<circ> query_url cfg) (concat (map snd (KEYWORD_GROUPS cfg)))"
    using search_all_fetches[OF assms(2)] by simp
  obtain g n where r: "r = (g, n)" by (cases r)
  have m: "main cfg ev w = send_email cfg ev w tr (subject_line (today_str w) n)
            (format_digest cfg (deduplicate_grouped_entries g))"
    using assms(2) r by (simp add: main_def Let_def)
  have c: "\<exists>rest. fst (main cfg ev w) = tr @ SmtpConnect ''smtp.gmail.com'' 587 # rest"
    unfolding m by (simp add: send_email_def Let_def smtp_calls_def smtp_session_trace)
  have l: "relay w Connect \<and> relay w Ehlo1 \<and> relay w StartTLS \<and> relay w Ehlo2 \<longrightarrow>
            SmtpLogin (SENDER_EMAIL ev) (SENDER_PASSWORD ev) \<in> set (fst (main cfg ev w))"
    unfolding m
    by (simp add: send_email_def Let_def smtp_calls_def smtp_session_trace call_returns_def)
  have s: "snd (main cfg ev w) =
           (case find (\<lambda>s. \<not> call_returns cfg ev w s) smtp_steps of
              None \<Rightarrow> Inr ()
            | Some s \<Rightarrow> Inl (SMTPError s))"
    unfolding m by (rule send_email_result)
  have i: "(snd (main cfg ev w) = Inr ()) = list_all (call_returns cfg ev w) smtp_steps"
  proof (cases "find (\<lambda>s. \<not> call_returns cfg ev w s) smtp_steps")
    case None
    then have "list_all (call_returns cfg ev w) smtp_steps"
      by (simp add: find_None_iff list_all_iff)
    then show ?thesis unfolding s None by simp
  next
    case (Some x)
    then have "\<not> list_all (call_returns cfg ev w) smtp_steps"
      by (auto simp: find_Some_iff list_all_iff)
    with Some show ?thesis unfolding s by simp
  qed
  have a: "SENDER_EMAIL ev = None \<longrightarrow> (\<exists>err. snd (main cfg ev w) = Inl err)"
  proof
    assume "SENDER_EMAIL ev = None"
    then have "\<not> list_all (call_returns cfg ev w) smtp_steps"
      by (simp add: smtp_steps_def call_returns_def)
    with i have "snd (main cfg ev w) \<noteq> Inr ()" by simp
    then show "\<exists>err. snd (main cfg ev w) = Inl err"
      by (cases "snd (main cfg ev w)") auto
  qed
  from t c l s i a show ?thesis by simp
qed

theorem secrets_not_checked_at_startup_witness:
  "(SENDER_EMAIL no_secrets = None \<or> SENDER_PASSWORD no_secrets = None) \<and>
   search_all default_config world_login_rejected [] [] 0 (KEYWORD_GROUPS default_config) =
     (map (Fetch \<circ> query_url default_config) (concat (map snd (KEYWORD_GROUPS default_config))),
      Inr (fold (\<lambda>(g, kws) d. dict_set d g []) (KEYWORD_GROUPS default_config) [], 0)) \<and>
   (\<exists>rest. fst (main default_config no_secrets world_login_rejected) =
        map (Fetch \<circ> query_url default_config) (concat (map snd (KEYWORD_GROUPS default_config)))
          @ SmtpConnect ''smtp.gmail.com'' 587 # rest) \<and>
   relay world_login_rejected Connect \<and> relay world_login_rejected Ehlo1 \<and>
   relay world_login_rejected StartTLS \<and> relay world_login_rejected Ehlo2 \<and>
   SmtpLogin (SENDER_EMAIL no_secrets) (SENDER_PASSWORD no_secrets)
     \<in> set (fst (main default_config no_secrets world_login_rejected)) \<and>
   snd (main default_config no_secrets world_login_rejected) =
     (case find (\<lambda>s. \<not> call_returns default_config no_secrets world_login_rejected s)
             smtp_steps of
        None \<Rightarrow> Inr ()
      | Some s \<Rightarrow> Inl (SMTPError s)) \<and>
   (snd (main default_config no_secrets world_login_rejected) = Inr ()) =
     list_all (call_returns default_config no_secrets world_login_rejected) smtp_steps \<and>
   SENDER_EMAIL no_secrets = None \<and>
   (\<exists>err. snd (main default_config no_secrets world_login_rejected) = Inl err)"
proof -
  have h1: "SENDER_EMAIL no_secrets = None \<or> SENDER_PASSWORD no_secrets = None"
    by (simp add: no_secrets_def)
  have f: "\<And>url. feed world_login_rejected url = []"
    by (simp add: world_login_rejected_def world_quiet_def)
  have h2: "search_all default_config world_login_rejected [] [] 0 (KEYWORD_GROUPS default_config) =
     (map (Fetch \<circ> query_url default_config) (concat (map snd (KEYWORD_GROUPS default_config))),
      Inr (fold (\<lambda>(g, kws) d. dict_set d g []) (KEYWORD_GROUPS default_config) [], 0))"
    using search_all_quiet [of world_login_rejected default_config "[]" "[]" 0, OF f] by simp
  have r: "relay world_login_rejected Connect" "relay world_login_rejected Ehlo1"
    "relay world_login_rejected StartTLS" "relay world_login_rejected Ehlo2"
    by (simp_all add: world_login_rejected_def)
  have h3: "SENDER_EMAIL no_secrets = None"
    by (simp add: no_secrets_def)
  show ?thesis
    using h1 h2 h3 r secrets_not_checked_at_startup [OF h1 h2] by blast
qed

text \<open>
  Claim C6, as stated, fails. An entry without the \<open>published\<close> attribute is not
  recovered: the loop body raises \<open>AttributeError\<close> and the run on the configuration of
  the source ends with that exception after its first feed request.
\<close>

theorem missing_published_counterexample:
  "published entry_no_published = None \<and>
   match_entry default_config ''2024-01-01'' ''Integrated Photonic Materials'' ''SiN''
     entry_no_published = Inl AttributeError \<and>
   main default_config env_example world_broken_entry =
     ([Fetch (query_url default_config ''SiN'')], Inl AttributeError)"
proof -
  have p: "published entry_no_published = None" by (simp add: entry_no_published_def)
  have a: "\<And>sd g kw. match_entry default_config sd g kw entry_no_published = Inl AttributeError"
    by (simp add: match_entry_def p)
  have f: "\<And>url. feed world_broken_entry url = [entry_no_published]"
    by (simp add: world_broken_entry_def)
  have m: "main default_config env_example world_broken_entry =
     ([Fetch (query_url default_config ''SiN'')], Inl AttributeError)"
    by (simp add: main_def keyword_groups_default search_group_def Let_def f a)
  from p a m show ?thesis by simp
qed

text \<open>
  Claim C6, amended. In strict-category mode, an entry whose category tags are missing,
  cannot be iterated or yield no term fails the category check without raising; when its
  \<open>published\<close> attribute is present the entry is excluded for that keyword and the search
  goes on with the next entry.
\<close>

theorem unusable_tags_entry_excluded:
  assumes "STRICT_CATEGORY_MODE cfg" "tags_unusable e" "published e = Some pub"
  shows "\<not> is_category_allowed cfg e \<and>
         match_entry cfg sd g kw e = Inr None \<and>
         search_entries cfg sd g kw matched (e # es) = search_entries cfg sd g kw matched es"
  using unusable_not_allowed[OF assms(1,2)] assms(3)
  by (simp add: match_entry_def)

theorem unusable_tags_entry_excluded_witness:
  "STRICT_CATEGORY_MODE default_config \<and> tags_unusable entry_no_tags \<and>
   published entry_no_tags = Some ''2024-01-02T09:30:00Z'' \<and>
   \<not> is_category_allowed default_config entry_no_tags \<and>
   match_entry default_config ''2024-01-01'' ''A'' ''foo'' entry_no_tags = Inr None \<and>
   search_entries default_config ''2024-01-01'' ''A'' ''foo'' [] (entry_no_tags # [entry_foo]) =
     search_entries default_config ''2024-01-01'' ''A'' ''foo'' [] [entry_foo]"
proof -
  have h1: "STRICT_CATEGORY_MODE default_config"
    by (simp add: default_config_def)
  have h2: "tags_unusable entry_no_tags"
    by (simp add: tags_unusable_def entry_no_tags_def)
  have h3: "published entry_no_tags = Some ''2024-01-02T09:30:00Z''"
    by (simp add: entry_no_tags_def entry_foo_def)
  show ?thesis
    using h1 h2 h3 unusable_tags_entry_excluded [OF h1 h2 h3] by blast
qed

end
